theory Spec2Isabelle
  imports Main "HOL-Library.Product_Lexorder"
begin

section \<open>Dates, times of day and instants\<close>

text \<open>
  A Python \<open>date\<close> is modelled by its proleptic Gregorian ordinal (\<open>date.toordinal()\<close>):
  0001-01-01 is 1 and 9999-12-31, the last date the type can hold, is 3652059.
  \<open>date.weekday()\<close> is \<open>(toordinal() + 6) % 7\<close>, Monday being 0. Adding a
  \<open>timedelta\<close> that leaves the range raises OverflowError, which no handler of the
  application catches.
\<close>

type_synonym date = int

datatype py_error = OverflowError | KeyError | TypeError

definition date_min :: date where
  "date_min = 1"

definition date_max :: date where
  "date_max = 3652059"

definition valid_date :: "date \<Rightarrow> bool" where
  "valid_date d = (date_min \<le> d \<and> d \<le> date_max)"

definition weekday :: "date \<Rightarrow> int" where
  "weekday d = (d + 6) mod 7"

definition add_days :: "date \<Rightarrow> int \<Rightarrow> py_error + date" where
  \<comment> \<open>\<open>d + timedelta(days=n)\<close>\<close>
  "add_days d n =
     (if date_min \<le> d + n \<and> d + n \<le> date_max then Inr (d + n) else Inl OverflowError)"

text \<open>
  A time of day is the number of microseconds since midnight; \<open>time.min\<close> is 0 and
  \<open>time.max\<close> is 23:59:59.999999. A \<open>datetime\<close> is a date with a time of day,
  compared lexicographically, as Python compares naive datetimes.
\<close>

type_synonym tod = nat

type_synonym datetime = "date \<times> tod"

definition time_min :: tod where
  "time_min = 0"

definition time_max :: tod where
  "time_max = 86399999999"

definition combine :: "date \<Rightarrow> tod \<Rightarrow> datetime" where
  \<comment> \<open>\<open>datetime.combine(d, t)\<close>\<close>
  "combine d t = (d, t)"

definition date_of :: "datetime \<Rightarrow> date" where
  \<comment> \<open>\<open>dt.date()\<close>\<close>
  "date_of dt = fst dt"

definition time_of :: "datetime \<Rightarrow> tod" where
  \<comment> \<open>\<open>dt.time()\<close>\<close>
  "time_of dt = snd dt"

section \<open>Form fields\<close>

text \<open>
  A submitted field is modelled by what the application's parser makes of its string:
  \<open>Empty\<close> is a missing or empty value (falsy in Python), \<open>Invalid\<close> a non-empty
  string on which \<open>strptime\<close>, \<open>fromisoformat\<close> raises ValueError, and
  \<open>Valid v\<close> a string that parses to \<open>v\<close>. An entry of \<open>repeat_days\<close> is
  \<open>None\<close> where \<open>int()\<close> raises ValueError.
\<close>

datatype 'a field = Empty | Invalid | Valid 'a

section \<open>The booking table\<close>

text \<open>
  The columns of the model class \<open>Booking\<close>, prefixed with \<open>b_\<close>. The column
  \<open>created_at\<close> is filled by the database layer from the clock and read nowhere; it
  is left out. A null \<open>series_id\<close> or \<open>who\<close> is \<open>None\<close>.
\<close>

record booking =
  b_id :: nat
  b_room :: string
  b_title :: string
  b_account :: string
  b_who :: "string option"
  b_start :: datetime
  b_end :: datetime
  b_series_id :: "string option"

text \<open>
  The database is the list of rows of the table, in insertion order, together with what
  decides the next primary key. The application selects its store from the environment:
  SQLite by default, PostgreSQL when \<open>DATABASE_URL\<close> is set. On SQLite the column
  \<open>id\<close> is the rowid, and an inserted row gets one more than the largest key in the
  table (1 in an empty table), so keys freed by a deletion of the last rows are handed
  out again; on PostgreSQL the key is the next value of the column's sequence, which a
  deletion does not lower. \<open>sequence\<close> is \<open>None\<close> on SQLite and the next value of
  the sequence on PostgreSQL.
  \<open>db.session.add\<close> appends a row under the next key (the session flushes before
  every query, so a later query of the same request sees the row);
  \<open>db.session.delete\<close> removes the row with the object's primary key.
\<close>

record db =
  bookings :: "booking list"
  sequence :: "nat option"

definition next_id :: "db \<Rightarrow> nat" where
  "next_id st =
     (case sequence st of
        None \<Rightarrow> Suc (fold max (map b_id (bookings st)) 0)
      | Some n \<Rightarrow> n)"

definition session_add :: "db \<Rightarrow> booking \<Rightarrow> db" where
  "session_add st b =
     st\<lparr>bookings := bookings st @ [b\<lparr>b_id := next_id st\<rparr>],
        sequence := map_option Suc (sequence st)\<rparr>"

definition session_delete :: "db \<Rightarrow> booking \<Rightarrow> db" where
  "session_delete st occ =
     st\<lparr>bookings := filter (\<lambda>r. b_id r \<noteq> b_id occ) (bookings st)\<rparr>"

definition first :: "'a list \<Rightarrow> 'a option" where
  \<comment> \<open>\<open>Query.first()\<close>\<close>
  "first xs = (case xs of [] \<Rightarrow> None | x # _ \<Rightarrow> Some x)"

definition ROOMS :: "string list" where
  "ROOMS = [''TMS ruimte'', ''CO2 ruimte'', ''Behandelruimte'', ''Wetlab'']"

section \<open>Conflict queries\<close>

text \<open>
  The comparison \<open>column != value\<close> of the query language: with a value that is not
  None it is SQL's \<open>!=\<close>, which is NULL on a NULL column, and a WHERE clause keeps
  only the rows on which its condition is true; with None it is \<open>IS NOT NULL\<close>.
\<close>

definition column_ne :: "'a option \<Rightarrow> 'a option \<Rightarrow> bool" where
  "column_ne col v =
     (case v of
        None \<Rightarrow> (case col of None \<Rightarrow> False | Some c \<Rightarrow> True)
      | Some x \<Rightarrow> (case col of None \<Rightarrow> False | Some c \<Rightarrow> c \<noteq> x))"

definition new_booking_overlap :: "db \<Rightarrow> string \<Rightarrow> datetime \<Rightarrow> datetime \<Rightarrow> booking option" where
  \<comment> \<open>the query \<open>overlap\<close> of \<open>new_booking\<close>\<close>
  "new_booking_overlap st room sdt edt =
     first (filter (\<lambda>r. b_room r = room \<and> b_start r < edt \<and> b_end r > sdt) (bookings st))"

definition series_edit_conflict ::
  "db \<Rightarrow> string \<Rightarrow> string option \<Rightarrow> datetime \<Rightarrow> datetime \<Rightarrow> booking option" where
  \<comment> \<open>the query \<open>conflict\<close> of the series branch of \<open>edit_booking\<close>\<close>
  "series_edit_conflict st room sid sdt edt =
     first (filter (\<lambda>r. b_room r = room \<and> column_ne (b_series_id r) sid
                         \<and> b_start r < edt \<and> b_end r > sdt) (bookings st))"

definition single_edit_conflict ::
  "db \<Rightarrow> nat \<Rightarrow> string \<Rightarrow> datetime \<Rightarrow> datetime \<Rightarrow> booking option" where
  \<comment> \<open>the query \<open>conflict\<close> of the single branch of \<open>edit_booking\<close>\<close>
  "single_edit_conflict st bid room new_start new_end =
     first (filter (\<lambda>r. b_id r \<noteq> bid \<and> b_room r = room
                         \<and> b_start r < new_end \<and> b_end r > new_start) (bookings st))"

text \<open>
  The overlap test of the specification's time-range model, in its own words:
  \<open>start < other.end AND end > other.start\<close>.
\<close>

definition spec_overlaps :: "datetime \<times> datetime \<Rightarrow> datetime \<times> datetime \<Rightarrow> bool" where
  "spec_overlaps a other = (fst a < snd other \<and> snd a > fst other)"

text \<open>
  The conflict detector of the specification for a series, in its own words: it
  \<open>searches all Bookings in room where the Booking's series identifier differs from
  excludeKey\<close> and \<open>returns true iff any such Booking's range overlaps
  candidateRange\<close>. A one-off booking has no series identifier, which differs from
  every series identifier.
\<close>

definition spec_hasConflict ::
  "db \<Rightarrow> string \<Rightarrow> datetime \<times> datetime \<Rightarrow> string option \<Rightarrow> bool" where
  "spec_hasConflict st room candidateRange excludeKey =
     list_ex (\<lambda>r. b_room r = room \<and> b_series_id r \<noteq> excludeKey
                   \<and> spec_overlaps (b_start r, b_end r) candidateRange) (bookings st)"

section \<open>Recurrence: expanding and inferring a pattern\<close>

text \<open>
  The loop that walks the calendar, written twice in the source (in \<open>new_booking\<close>
  from the day after the base date, in \<open>edit_booking\<close> from the anchor date):
  \<^verbatim>\<open>while cur <= end: if cur.weekday() in weekdays: dates.append(cur); cur += timedelta(days=1)\<close>
  The increment raises OverflowError on the last date of the calendar.
\<close>

function date_loop :: "date \<Rightarrow> date \<Rightarrow> int set \<Rightarrow> date list \<Rightarrow> py_error + date list" where
  "date_loop cur end_date weekdays dates =
     (if cur \<le> end_date then
        (case add_days cur 1 of
           Inl e \<Rightarrow> Inl e
         | Inr nxt \<Rightarrow>
             date_loop nxt end_date weekdays
               (if weekday cur \<in> weekdays then dates @ [cur] else dates))
      else Inr dates)"
  by pat_completeness auto
termination
  by (relation "measure (\<lambda>(cur, end_date, weekdays, dates). nat (end_date + 1 - cur))")
     (auto simp: add_days_def split: if_splits)

declare date_loop.simps [simp del]

definition int_set :: "int option list \<Rightarrow> int set option" where
  \<comment> \<open>\<open>set(int(d) for d in repeat_days)\<close>; \<open>None\<close> is ValueError\<close>
  "int_set repeat_days = map_option set (those repeat_days)"

definition infer_series_pattern :: "booking list \<Rightarrow> date option \<times> int set \<times> date option" where
  "infer_series_pattern occ_list =
     (if occ_list = [] then (None, {}, None)
      else
        let dates = map (\<lambda>occ. date_of (b_start occ)) occ_list;
            start_anchor = Min (set dates);
            end_date = Max (set dates);
            weekdays = weekday ` set dates
        in (Some start_anchor, weekdays, Some end_date))"

definition get_series_occurrences :: "db \<Rightarrow> string \<Rightarrow> booking list" where
  "get_series_occurrences st series_id =
     sort_key b_start (filter (\<lambda>r. b_series_id r = Some series_id) (bookings st))"

section \<open>Creating bookings\<close>

text \<open>
  The fields of the booking forms. \<open>f_title\<close> and \<open>f_who\<close> are the submitted
  strings after \<open>strip()\<close>; a missing room is a string outside \<open>ROOMS\<close>.
\<close>

record form =
  f_room :: string
  f_title :: string
  f_who :: string
  f_date :: "date field"
  f_start_time :: "tod field"
  f_end_time :: "tod field"
  f_repeat_days :: "int option list"
  f_repeat_end :: "date field"

text \<open>
  What a request answers: the flashed message with its data. \<open>Created n skipped\<close>
  carries the count of created bookings and the dates flashed as conflicts;
  \<open>Conflicts ds\<close> carries the dates of the message of a rejected series edit (the
  source formats them with \<open>strftime\<close>, which is injective on dates).
\<close>

datatype response =
    NotFound
  | InvalidRoom
  | MissingFields
  | InvalidDateTime
  | EndNotAfterStart
  | InvalidRepeatEnd
  | InvalidWeekdays
  | NoWeekday
  | EndBeforeAnchor
  | Created nat "date list"
  | Conflicts "date list"
  | SeriesUpdated nat
  | SingleConflict
  | BookingUpdated

definition who_or_none :: "string \<Rightarrow> string option" where
  \<comment> \<open>\<open>who or None\<close>\<close>
  "who_or_none who = (if who = [] then None else Some who)"

definition booking_dates ::
  "date \<Rightarrow> int option list \<Rightarrow> date field \<Rightarrow> py_error + date list option" where
  \<comment> \<open>the list \<open>booking_dates\<close> of \<open>new_booking\<close>; \<open>Inr None\<close> is the ValueError branch\<close>
  "booking_dates base_date repeat_days repeat_end =
     (if repeat_days \<noteq> [] \<and> repeat_end \<noteq> Empty then
        (case repeat_end of
           Valid repeat_end_date \<Rightarrow>
             (case int_set repeat_days of
                None \<Rightarrow> Inr None
              | Some repeat_weekdays \<Rightarrow>
                  (case add_days base_date 1 of
                     Inl e \<Rightarrow> Inl e
                   | Inr cur \<Rightarrow>
                       (case date_loop cur repeat_end_date repeat_weekdays [base_date] of
                          Inl e \<Rightarrow> Inl e
                        | Inr dates \<Rightarrow> Inr (Some dates))))
         | _ \<Rightarrow> Inr None)
      else Inr (Some [base_date]))"

definition new_booking_step ::
  "string \<Rightarrow> string \<Rightarrow> string \<Rightarrow> string \<Rightarrow> tod \<Rightarrow> tod \<Rightarrow> string option \<Rightarrow> date
     \<Rightarrow> nat \<times> date list \<times> db \<Rightarrow> nat \<times> date list \<times> db" where
  \<comment> \<open>one round of the loop \<open>for d in booking_dates\<close>\<close>
  "new_booking_step room title account who start_time end_time series_id d acc =
     (case acc of (created, skipped, st) \<Rightarrow>
        let sdt = combine d start_time;
            edt = combine d end_time
        in case new_booking_overlap st room sdt edt of
             Some overlap \<Rightarrow> (created, skipped @ [d], st)
           | None \<Rightarrow>
               (created + 1, skipped,
                session_add st \<lparr>b_id = 0, b_room = room, b_title = title, b_account = account,
                  b_who = who_or_none who, b_start = sdt, b_end = edt,
                  b_series_id = series_id\<rparr>))"

definition new_booking :: "db \<Rightarrow> string \<Rightarrow> string \<Rightarrow> form \<Rightarrow> py_error + response \<times> db" where
  \<comment> \<open>the POST branch for the logged-in account \<open>me\<close>; \<open>uuid4\<close> is the identifier
      that \<open>uuid.uuid4()\<close> mints. An uncaught exception commits nothing.\<close>
  "new_booking st me uuid4 f =
     (if f_room f \<notin> set ROOMS then Inr (InvalidRoom, st)
      else if f_title f = [] \<or> f_date f = Empty \<or> f_start_time f = Empty
                \<or> f_end_time f = Empty then Inr (MissingFields, st)
      else
        (case (f_date f, f_start_time f, f_end_time f) of
           (Valid base_date, Valid start_time, Valid end_time) \<Rightarrow>
             let start_dt = combine base_date start_time;
                 end_dt = combine base_date end_time
             in if end_dt \<le> start_dt then Inr (EndNotAfterStart, st)
                else
                  (case booking_dates base_date (f_repeat_days f) (f_repeat_end f) of
                     Inl e \<Rightarrow> Inl e
                   | Inr None \<Rightarrow> Inr (InvalidRepeatEnd, st)
                   | Inr (Some dates) \<Rightarrow>
                       let series_id = (if length dates > 1 then Some uuid4 else None)
                       in (case fold (new_booking_step (f_room f) (f_title f) me (f_who f)
                                        (time_of start_dt) (time_of end_dt) series_id)
                                  dates (0, [], st) of
                             (created, skipped, st') \<Rightarrow> Inr (Created created skipped, st')))
         | _ \<Rightarrow> Inr (InvalidDateTime, st)))"

section \<open>Editing bookings\<close>

definition series_conflicts ::
  "db \<Rightarrow> string \<Rightarrow> string option \<Rightarrow> tod \<Rightarrow> tod \<Rightarrow> date list \<Rightarrow> date list" where
  \<comment> \<open>the list \<open>conflicts\<close> of the pre-check loop\<close>
  "series_conflicts st room series_id start_time end_time new_dates =
     filter (\<lambda>d. series_edit_conflict st room series_id
                    (combine d start_time) (combine d end_time) \<noteq> None) new_dates"

definition replace_series ::
  "db \<Rightarrow> booking list \<Rightarrow> string \<Rightarrow> string \<Rightarrow> string \<Rightarrow> string \<Rightarrow> tod \<Rightarrow> tod
     \<Rightarrow> string option \<Rightarrow> date list \<Rightarrow> db" where
  \<comment> \<open>delete the old occurrences, then add one booking for each new date\<close>
  "replace_series st occs room title who account start_time end_time series_id new_dates =
     fold (\<lambda>d s. session_add s
              \<lparr>b_id = 0, b_room = room, b_title = title, b_account = account,
               b_who = who_or_none who, b_start = combine d start_time,
               b_end = combine d end_time, b_series_id = series_id\<rparr>)
          new_dates
          (fold (\<lambda>occ s. session_delete s occ) occs st)"

definition edit_series ::
  "db \<Rightarrow> booking \<Rightarrow> string \<Rightarrow> form \<Rightarrow> datetime \<Rightarrow> datetime \<Rightarrow> py_error + response \<times> db" where
  \<comment> \<open>the branch \<open>SERIES EDIT\<close>, entered with \<open>b.series_id = series_id\<close>\<close>
  "edit_series st b series_id f new_start new_end =
     (let occs = get_series_occurrences st series_id
      in case infer_series_pattern occs of (anchor_date, current_days, current_end) \<Rightarrow>
        (case (if f_repeat_days f = [] then Some current_days
               else int_set (f_repeat_days f)) of
           None \<Rightarrow> Inr (InvalidWeekdays, st)
         | Some repeat_weekdays \<Rightarrow>
             if repeat_weekdays = {} then Inr (NoWeekday, st)
             else
               (case (case f_repeat_end f of
                        Empty \<Rightarrow> Some current_end
                      | Invalid \<Rightarrow> None
                      | Valid d \<Rightarrow> Some (Some d)) of
                  None \<Rightarrow> Inr (InvalidRepeatEnd, st)
                | Some None \<Rightarrow> Inr (EndBeforeAnchor, st)
                | Some (Some new_series_end) \<Rightarrow>
                    (case anchor_date of
                       None \<Rightarrow> Inl TypeError
                     | Some anchor \<Rightarrow>
                         if new_series_end < anchor then Inr (EndBeforeAnchor, st)
                         else
                           (case date_loop anchor new_series_end repeat_weekdays [] of
                              Inl e \<Rightarrow> Inl e
                            | Inr new_dates \<Rightarrow>
                                let conflicts =
                                      series_conflicts st (f_room f) (b_series_id b)
                                        (time_of new_start) (time_of new_end) new_dates
                                in if conflicts \<noteq> [] then Inr (Conflicts conflicts, st)
                                   else
                                     Inr (SeriesUpdated (length new_dates),
                                          replace_series st occs (f_room f) (f_title f)
                                            (f_who f) (b_account b) (time_of new_start)
                                            (time_of new_end) (b_series_id b)
                                            new_dates))))))"

definition edit_single ::
  "db \<Rightarrow> booking \<Rightarrow> form \<Rightarrow> datetime \<Rightarrow> datetime \<Rightarrow> py_error + response \<times> db" where
  \<comment> \<open>the branch \<open>SINGLE EDIT\<close>: the row is updated in place\<close>
  "edit_single st b f new_start new_end =
     (case single_edit_conflict st (b_id b) (f_room f) new_start new_end of
        Some conflict \<Rightarrow> Inr (SingleConflict, st)
      | None \<Rightarrow>
          Inr (BookingUpdated,
               st\<lparr>bookings :=
                    map (\<lambda>r. if b_id r = b_id b
                             then r\<lparr>b_room := f_room f, b_title := f_title f,
                                    b_who := who_or_none (f_who f),
                                    b_start := new_start, b_end := new_end\<rparr>
                             else r)
                        (bookings st)\<rparr>))"

definition edit_booking :: "db \<Rightarrow> nat \<Rightarrow> form \<Rightarrow> py_error + response \<times> db" where
  \<comment> \<open>the POST branch for a logged-in account\<close>
  "edit_booking st booking_id f =
     (case find (\<lambda>r. b_id r = booking_id) (bookings st) of
        None \<Rightarrow> Inr (NotFound, st)
      | Some b \<Rightarrow>
          if f_room f \<notin> set ROOMS \<or> f_title f = [] \<or> f_date f = Empty
               \<or> f_start_time f = Empty \<or> f_end_time f = Empty
          then Inr (MissingFields, st)
          else
            (case (f_date f, f_start_time f, f_end_time f) of
               (Valid new_date, Valid start_time, Valid end_time) \<Rightarrow>
                 let new_start = combine new_date start_time;
                     new_end = combine new_date end_time
                 in if new_end \<le> new_start then Inr (EndNotAfterStart, st)
                    else
                      (case b_series_id b of
                         Some series_id \<Rightarrow>
                           if series_id \<noteq> [] then edit_series st b series_id f new_start new_end
                           else edit_single st b f new_start new_end
                       | None \<Rightarrow> edit_single st b f new_start new_end)
             | _ \<Rightarrow> Inr (InvalidDateTime, st)))"

section \<open>The weekly grid\<close>

definition week_bounds :: "date \<Rightarrow> py_error + date \<times> date" where
  "week_bounds start_date =
     (case add_days start_date (- weekday start_date) of
        Inl e \<Rightarrow> Inl e
      | Inr monday \<Rightarrow>
          (case add_days monday 6 of
             Inl e \<Rightarrow> Inl e
           | Inr sunday \<Rightarrow> Inr (monday, sunday)))"

type_synonym grid = "string \<rightharpoonup> (date \<rightharpoonup> booking list)"

fun add_days_each :: "date \<Rightarrow> int list \<Rightarrow> py_error + date list" where
  \<comment> \<open>\<open>[d + timedelta(days=i) for i in ...]\<close>\<close>
  "add_days_each d [] = Inr []"
| "add_days_each d (i # rest) =
     (case add_days d i of
        Inl e \<Rightarrow> Inl e
      | Inr x \<Rightarrow> (case add_days_each d rest of Inl e \<Rightarrow> Inl e | Inr xs \<Rightarrow> Inr (x # xs)))"

definition empty_grid :: "date \<Rightarrow> py_error + grid" where
  \<comment> \<open>\<open>{room: {week_start + timedelta(days=i): [] for i in range(7)} for room in ROOMS}\<close>\<close>
  "empty_grid week_start =
     (case add_days_each week_start [0, 1, 2, 3, 4, 5, 6] of
        Inl e \<Rightarrow> Inl e
      | Inr days \<Rightarrow>
          Inr (map_of (map (\<lambda>room. (room, map_of (map (\<lambda>d. (d, [])) days))) ROOMS)))"

definition grid_append :: "grid \<Rightarrow> string \<Rightarrow> date \<Rightarrow> booking \<Rightarrow> py_error + grid" where
  \<comment> \<open>\<open>grid[room][day_key].append(b)\<close>\<close>
  "grid_append g room day_key b =
     (case g room of
        None \<Rightarrow> Inl KeyError
      | Some days \<Rightarrow>
          (case days day_key of
             None \<Rightarrow> Inl KeyError
           | Some bs \<Rightarrow> Inr (g(room \<mapsto> days(day_key \<mapsto> bs @ [b])))))"

fun fill_grid :: "grid \<Rightarrow> date \<Rightarrow> date \<Rightarrow> booking list \<Rightarrow> py_error + grid" where
  \<comment> \<open>the loop \<open>for b in bookings\<close>\<close>
  "fill_grid g week_start week_end [] = Inr g"
| "fill_grid g week_start week_end (b # rest) =
     (let day_key = date_of (b_start b)
      in if g (b_room b) \<noteq> None \<and> week_start \<le> day_key \<and> day_key \<le> week_end
         then (case grid_append g (b_room b) day_key b of
                 Inl e \<Rightarrow> Inl e
               | Inr g' \<Rightarrow> fill_grid g' week_start week_end rest)
         else fill_grid g week_start week_end rest)"

definition build_grid :: "date \<Rightarrow> date \<Rightarrow> booking list \<Rightarrow> py_error + grid" where
  "build_grid week_start week_end bs =
     (case empty_grid week_start of
        Inl e \<Rightarrow> Inl e
      | Inr g \<Rightarrow> fill_grid g week_start week_end bs)"

definition bucket :: "grid \<Rightarrow> string \<Rightarrow> date \<Rightarrow> booking list" where
  \<comment> \<open>the bookings the grid shows for a room and a day; none where the grid has no such cell\<close>
  "bucket g room day =
     (case g room of
        None \<Rightarrow> []
      | Some days \<Rightarrow> (case days day of None \<Rightarrow> [] | Some bs \<Rightarrow> bs))"

definition start_day :: "date \<Rightarrow> date field \<Rightarrow> date field \<Rightarrow> py_error + date" where
  \<comment> \<open>\<open>start_d\<close> from the parameters \<open>jump_date\<close> and \<open>week_start\<close>\<close>
  "start_day today jump_date qs =
     (case jump_date of
        Valid target \<Rightarrow> add_days target (- weekday target)
      | Invalid \<Rightarrow> Inr today
      | Empty \<Rightarrow> (case qs of Valid d \<Rightarrow> Inr d | _ \<Rightarrow> Inr today))"

definition week_query :: "db \<Rightarrow> date \<Rightarrow> date \<Rightarrow> booking list" where
  \<comment> \<open>the query \<open>bookings\<close> of \<open>index\<close>\<close>
  "week_query st week_start week_end =
     (let start_dt = combine week_start time_min;
          end_dt = combine week_end time_max
      in sort_key b_start
           (filter (\<lambda>r. b_start r \<le> end_dt \<and> b_end r \<ge> start_dt) (bookings st)))"

record page =
  p_week_start :: date
  p_week_end :: date
  p_grid :: grid
  p_prev_week :: date
  p_next_week :: date

definition index :: "db \<Rightarrow> date \<Rightarrow> date field \<Rightarrow> date field \<Rightarrow> py_error + page" where
  "index st today jump_date qs =
     (case start_day today jump_date qs of
        Inl e \<Rightarrow> Inl e
      | Inr start_d \<Rightarrow>
          (case week_bounds start_d of
             Inl e \<Rightarrow> Inl e
           | Inr (week_start, week_end) \<Rightarrow>
               (case build_grid week_start week_end (week_query st week_start week_end) of
                  Inl e \<Rightarrow> Inl e
                | Inr g \<Rightarrow>
                    (case add_days week_start (- 7) of
                       Inl e \<Rightarrow> Inl e
                     | Inr prev_week \<Rightarrow>
                         (case add_days week_start 7 of
                            Inl e \<Rightarrow> Inl e
                          | Inr next_week \<Rightarrow>
                              Inr \<lparr>p_week_start = week_start, p_week_end = week_end,
                                   p_grid = g, p_prev_week = prev_week,
                                   p_next_week = next_week\<rparr>)))))"

section \<open>The JSON feed\<close>

text \<open>
  \<open>as_dict\<close> projects a row to the fields of the feed; \<open>isoformat()\<close> renders an
  instant injectively, so the instants stand for their renderings.
\<close>

record booking_dict =
  d_id :: nat
  d_room :: string
  d_title :: string
  d_account :: string
  d_who :: "string option"
  d_start :: datetime
  d_end :: datetime
  d_series_id :: "string option"

definition as_dict :: "booking \<Rightarrow> booking_dict" where
  "as_dict b =
     \<lparr>d_id = b_id b, d_room = b_room b, d_title = b_title b, d_account = b_account b,
      d_who = b_who b, d_start = b_start b, d_end = b_end b, d_series_id = b_series_id b\<rparr>"

definition api_bookings :: "db \<Rightarrow> datetime field \<Rightarrow> datetime field \<Rightarrow> booking_dict list" where
  "api_bookings st start_arg end_arg =
     (let q0 = bookings st;
          q1 = (case start_arg of Valid sdt \<Rightarrow> filter (\<lambda>r. b_end r \<ge> sdt) q0 | _ \<Rightarrow> q0);
          q2 = (case end_arg of Valid edt \<Rightarrow> filter (\<lambda>r. b_start r \<le> edt) q1 | _ \<Rightarrow> q1);
          items = sort_key b_start q2
      in map as_dict items)"

section \<open>Overlap of time ranges\<close>

lemma first_eq_None: "first xs = None \<longleftrightarrow> xs = []"
  by (cases xs) (simp_all add: first_def)

lemma first_filter_Some_iff: "first (filter P xs) \<noteq> None \<longleftrightarrow> (\<exists>x\<in>set xs. P x)"
  by (simp add: first_eq_None filter_empty_conv)

lemma first_filter_SomeD: "first (filter P xs) = Some x \<Longrightarrow> x \<in> set xs \<and> P x"
proof -
  assume h: "first (filter P xs) = Some x"
  then obtain ys where "filter P xs = x # ys"
    by (cases "filter P xs") (simp_all add: first_def)
  then have "x \<in> set (filter P xs)" by simp
  then show ?thesis by simp
qed

lemma column_ne_Some: "column_ne c (Some x) \<longleftrightarrow> (\<exists>y. c = Some y \<and> y \<noteq> x)"
  by (cases c) (simp_all add: column_ne_def)

text \<open>
  What the three conflict queries compare. Each finds a row exactly when some row that
  passes its room and exclusion filters overlaps the candidate range in the sense
  \<open>start < other.end AND end > other.start\<close>. The exclusion filter of the series
  query passes only rows that carry a series identifier, and one other than the edited
  series'; a row without a series identifier never passes it.
\<close>

lemma new_booking_overlap_iff:
  "new_booking_overlap st room sdt edt \<noteq> None \<longleftrightarrow>
     (\<exists>r\<in>set (bookings st). b_room r = room
         \<and> spec_overlaps (b_start r, b_end r) (sdt, edt))"
  unfolding new_booking_overlap_def first_filter_Some_iff
  by (simp add: spec_overlaps_def)

lemma series_edit_conflict_iff:
  "series_edit_conflict st room (Some sid) sdt edt \<noteq> None \<longleftrightarrow>
     (\<exists>r\<in>set (bookings st). b_room r = room
         \<and> (\<exists>x. b_series_id r = Some x \<and> x \<noteq> sid)
         \<and> spec_overlaps (b_start r, b_end r) (sdt, edt))"
  unfolding series_edit_conflict_def first_filter_Some_iff column_ne_Some
  by (simp add: spec_overlaps_def)

lemma single_edit_conflict_iff:
  "single_edit_conflict st bid room sdt edt \<noteq> None \<longleftrightarrow>
     (\<exists>r\<in>set (bookings st). b_id r \<noteq> bid \<and> b_room r = room
         \<and> spec_overlaps (b_start r, b_end r) (sdt, edt))"
  unfolding single_edit_conflict_def first_filter_Some_iff
  by (simp add: spec_overlaps_def)

lemma series_edit_conflict_one_off:
  "series_edit_conflict st room (Some sid) sdt edt = Some r \<Longrightarrow> b_series_id r \<noteq> None"
  unfolding series_edit_conflict_def
  by (auto dest!: first_filter_SomeD simp: column_ne_def split: option.splits)

lemma spec_overlaps_sym: "spec_overlaps a c \<longleftrightarrow> spec_overlaps c a"
  by (auto simp: spec_overlaps_def)

lemma spec_overlaps_touching:
  "\<not> spec_overlaps (s1, e1) (e1, e2)" "\<not> spec_overlaps (e1, e2) (s1, e1)"
  by (simp_all add: spec_overlaps_def)

lemma spec_hasConflict_iff:
  "spec_hasConflict st room rng key \<longleftrightarrow>
     (\<exists>r\<in>set (bookings st). b_room r = room \<and> b_series_id r \<noteq> key
         \<and> spec_overlaps (b_start r, b_end r) rng)"
  by (simp add: spec_hasConflict_def list_ex_iff)

text \<open>
  The series query against the specification's detector: whatever the query finds, the
  detector finds; the detector finds more exactly when an overlapping row of the room is
  a one-off row.
\<close>

lemma series_edit_conflict_spec:
  "spec_hasConflict st room (sdt, edt) (Some sid) \<longleftrightarrow>
     series_edit_conflict st room (Some sid) sdt edt \<noteq> None
     \<or> (\<exists>r\<in>set (bookings st). b_room r = room \<and> b_series_id r = None
           \<and> spec_overlaps (b_start r, b_end r) (sdt, edt))"
proof -
  have c: "c \<noteq> Some sid \<longleftrightarrow> (\<exists>x. c = Some x \<and> x \<noteq> sid) \<or> c = None"
    for c :: "string option"
    by (cases c) auto
  show ?thesis
    unfolding spec_hasConflict_iff series_edit_conflict_iff c by blast
qed

section \<open>The calendar walk\<close>

lemma date_loop_Inr:
  "date_loop cur e W acc = Inr ds \<Longrightarrow> ds = acc @ filter (\<lambda>d. weekday d \<in> W) [cur..e]"
proof (induction cur e W acc rule: date_loop.induct)
  case (1 cur e W acc)
  show ?case
  proof (cases "cur \<le> e")
    case False
    with "1.prems" show ?thesis by (simp add: date_loop.simps)
  next
    case True
    from True "1.prems" obtain nxt where nx: "add_days cur 1 = Inr nxt"
      by (cases "add_days cur 1") (simp_all add: date_loop.simps)
    then have nxt: "nxt = cur + 1"
      by (simp add: add_days_def split: if_splits)
    from True nx "1.prems"
    have "date_loop nxt e W (if weekday cur \<in> W then acc @ [cur] else acc) = Inr ds"
      by (simp add: date_loop.simps)
    from "1.IH"[OF True nx this]
    have "ds = (if weekday cur \<in> W then acc @ [cur] else acc) @ filter (\<lambda>d. weekday d \<in> W) [nxt..e]" .
    moreover have "[cur..e] = cur # [cur + 1..e]"
      using True by (simp add: upto_rec1)
    ultimately show ?thesis by (simp add: nxt)
  qed
qed

lemma date_loop_total:
  "date_min \<le> cur + 1 \<Longrightarrow> e < date_max \<Longrightarrow> \<exists>ds. date_loop cur e W acc = Inr ds"
proof (induction cur e W acc rule: date_loop.induct)
  case (1 cur e W acc)
  show ?case
  proof (cases "cur \<le> e")
    case False
    then show ?thesis by (simp add: date_loop.simps)
  next
    case True
    with "1.prems" have nx: "add_days cur 1 = Inr (cur + 1)"
      by (simp add: add_days_def)
    have "\<exists>ds. date_loop (cur + 1) e W (if weekday cur \<in> W then acc @ [cur] else acc) = Inr ds"
      using "1.IH"[OF True nx] "1.prems" by (simp add: date_loop.simps)
    with True nx show ?thesis by (simp add: date_loop.simps)
  qed
qed

lemma date_loop_overflow:
  "cur \<le> e \<Longrightarrow> date_max \<le> e \<Longrightarrow> date_loop cur e W acc = Inl OverflowError"
proof (induction cur e W acc rule: date_loop.induct)
  case (1 cur e W acc)
  show ?case
  proof (cases "add_days cur 1")
    case (Inl err)
    then have "err = OverflowError" by (simp add: add_days_def split: if_splits)
    with Inl "1.prems" show ?thesis by (simp add: date_loop.simps)
  next
    case (Inr nxt)
    then have nxt: "nxt = cur + 1" "cur + 1 \<le> date_max"
      by (simp_all add: add_days_def split: if_splits)
    with "1.prems" have "nxt \<le> e" by (simp add: date_loop.simps)
    from "1.IH"[OF "1.prems"(1) Inr this "1.prems"(2)] Inr "1.prems"(1)
    show ?thesis by (simp add: date_loop.simps)
  qed
qed

section \<open>Candidate dates of a new booking\<close>

lemma date_loop_eq:
  assumes "date_min \<le> cur + 1" "e < date_max"
  shows "date_loop cur e W acc = Inr (acc @ filter (\<lambda>d. weekday d \<in> W) [cur..e])"
proof -
  from date_loop_total[OF assms] obtain ds where "date_loop cur e W acc = Inr ds" ..
  with date_loop_Inr[OF this] show ?thesis by simp
qed

text \<open>
  C5 (amended). Without a repeat specification (no weekday or no end date submitted)
  the candidate list is the base date alone. With one, and with the base date and the
  repeat end date both before the last date of the calendar, it is the base date
  followed by every date from the day after it through the repeat end date whose
  weekday is in the set, in ascending order; the base date is included whatever its
  weekday.
\<close>

theorem booking_dates_candidates:
  "(rd = [] \<or> re = Empty \<longrightarrow> booking_dates base rd re = Inr (Some [base]))
   \<and> (rd \<noteq> [] \<and> int_set rd = Some W \<and> valid_date base \<and> base < date_max \<and> e < date_max \<longrightarrow>
        booking_dates base rd (Valid e)
          = Inr (Some (base # filter (\<lambda>d. weekday d \<in> W) [base + 1..e])))"
proof (intro conjI impI)
  assume "rd = [] \<or> re = Empty"
  then show "booking_dates base rd re = Inr (Some [base])"
    by (auto simp: booking_dates_def)
next
  assume h: "rd \<noteq> [] \<and> int_set rd = Some W \<and> valid_date base \<and> base < date_max \<and> e < date_max"
  then have nx: "add_days base 1 = Inr (base + 1)"
    by (simp add: add_days_def valid_date_def)
  from h have "date_min \<le> (base + 1) + 1" by (simp add: valid_date_def)
  from date_loop_eq[OF this, of e W "[base]"] h
  have "date_loop (base + 1) e W [base] = Inr (base # filter (\<lambda>d. weekday d \<in> W) [base + 1..e])"
    by simp
  with h nx show "booking_dates base rd (Valid e)
          = Inr (Some (base # filter (\<lambda>d. weekday d \<in> W) [base + 1..e]))"
    by (simp add: booking_dates_def)
qed

theorem booking_dates_candidates_witness:
  "booking_dates 738886 [Some 0, Some 2] (Valid 738893) = Inr (Some [738886, 738888, 738893])
   \<and> booking_dates 738886 [] (Valid 738893) = Inr (Some [738886])"
  using booking_dates_candidates[of "[Some 0, Some 2]" "Valid 738893" 738886 "{0, 2}" 738893]
        booking_dates_candidates[of "[]" "Valid 738893" 738886 "{}" 0]
  by (simp add: int_set_def valid_date_def date_min_def date_max_def weekday_def upto_rec1)

text \<open>
  With 9999-12-31 as repeat end date the walk raises OverflowError when it steps past
  the last date, and no candidate list is produced.
\<close>

theorem booking_dates_last_day_counterexample:
  "valid_date 3652058 \<and> valid_date 3652059
   \<and> booking_dates 3652058 [Some 4] (Valid 3652059) = Inl OverflowError
   \<and> booking_dates 3652058 [Some 4] (Valid 3652059)
       \<noteq> Inr (Some (3652058 # filter (\<lambda>d. weekday d \<in> {4}) [3652058 + 1..3652059]))"
  by (simp add: date_loop.simps booking_dates_def int_set_def valid_date_def date_min_def date_max_def
        add_days_def weekday_def)

section \<open>Inferring the pattern of an expanded series\<close>

lemma infer_series_pattern_dates:
  assumes "map (\<lambda>occ. date_of (b_start occ)) occs = ds" "ds \<noteq> []"
  shows "infer_series_pattern occs = (Some (Min (set ds)), weekday ` set ds, Some (Max (set ds)))"
proof -
  from assms have "occs \<noteq> []" by auto
  with assms(1) show ?thesis
    by (simp add: infer_series_pattern_def Let_def)
qed

lemma infer_series_pattern_empty:
  "map (\<lambda>occ. date_of (b_start occ)) occs = [] \<Longrightarrow> infer_series_pattern occs = (None, {}, None)"
  by (simp add: infer_series_pattern_def)

lemma expand_roundtrip_iff:
  fixes A E :: date
  assumes ds: "ds = filter (\<lambda>d. weekday d \<in> W) [A..E]"
    and occs: "map (\<lambda>occ. date_of (b_start occ)) occs = ds"
  shows "infer_series_pattern occs = (Some A, W, Some E)
     \<longleftrightarrow> A \<le> E \<and> weekday A \<in> W \<and> weekday E \<in> W \<and> W \<subseteq> weekday ` {A..E}"
proof
  assume r: "infer_series_pattern occs = (Some A, W, Some E)"
  have ne: "ds \<noteq> []"
  proof
    assume "ds = []"
    with occs have "infer_series_pattern occs = (None, {}, None)"
      by (simp add: infer_series_pattern_empty)
    with r show False by simp
  qed
  from infer_series_pattern_dates[OF occs ne] r
  have m: "Min (set ds) = A" "Max (set ds) = E" "weekday ` set ds = W" by simp_all
  have fin: "finite (set ds)" "set ds \<noteq> {}" using ne by simp_all
  from Min_in[OF fin] m(1) have "A \<in> set ds" by simp
  moreover from Max_in[OF fin] m(2) have "E \<in> set ds" by simp
  moreover have sub: "set ds \<subseteq> {A..E}" using ds by auto
  moreover have "W \<subseteq> weekday ` {A..E}"
    using image_mono[OF sub, of weekday] m(3) by simp
  ultimately show "A \<le> E \<and> weekday A \<in> W \<and> weekday E \<in> W \<and> W \<subseteq> weekday ` {A..E}"
    using ds by auto
next
  assume h: "A \<le> E \<and> weekday A \<in> W \<and> weekday E \<in> W \<and> W \<subseteq> weekday ` {A..E}"
  have s: "set ds = {d \<in> {A..E}. weekday d \<in> W}" using ds by auto
  with h have inA: "A \<in> set ds" and inE: "E \<in> set ds" by simp_all
  then have ne: "ds \<noteq> []" by auto
  have bounds: "\<And>d. d \<in> set ds \<Longrightarrow> A \<le> d \<and> d \<le> E" using s by simp
  have "Min (set ds) = A"
  proof (rule Min_eqI)
    show "finite (set ds)" by simp
    show "\<And>y. y \<in> set ds \<Longrightarrow> A \<le> y" using bounds by simp
    show "A \<in> set ds" by (rule inA)
  qed
  moreover have "Max (set ds) = E"
  proof (rule Max_eqI)
    show "finite (set ds)" by simp
    show "\<And>y. y \<in> set ds \<Longrightarrow> y \<le> E" using bounds by simp
    show "E \<in> set ds" by (rule inE)
  qed
  moreover have "weekday ` set ds = W"
  proof
    show "weekday ` set ds \<subseteq> W" using s by auto
    show "W \<subseteq> weekday ` set ds"
    proof
      fix w assume w: "w \<in> W"
      with h obtain d where "d \<in> {A..E}" "w = weekday d" by auto
      with w s show "w \<in> weekday ` set ds" by auto
    qed
  qed
  ultimately show "infer_series_pattern occs = (Some A, W, Some E)"
    using infer_series_pattern_dates[OF occs ne] by simp
qed

text \<open>
  C3 (amended). For an anchor date \<open>A\<close> and an end date \<open>E\<close> before the last date
  of the calendar, the walk from \<open>A\<close> to \<open>E\<close> over the weekday set \<open>W\<close> yields
  a date list, and inferring the pattern of occurrences that start on exactly those
  dates gives back \<open>(A, W, E)\<close> if and only if \<open>A \<le> E\<close>, the weekdays of \<open>A\<close>
  and of \<open>E\<close> are in \<open>W\<close>, and every member of \<open>W\<close> is the weekday of some
  date from \<open>A\<close> to \<open>E\<close>.
\<close>

theorem infer_expand_roundtrip:
  assumes "valid_date A" and "E < date_max"
  shows "\<exists>ds. date_loop A E W [] = Inr ds
           \<and> (\<forall>occs. map (\<lambda>occ. date_of (b_start occ)) occs = ds \<longrightarrow>
                 (infer_series_pattern occs = (Some A, W, Some E)
                    \<longleftrightarrow> A \<le> E \<and> weekday A \<in> W \<and> weekday E \<in> W
                        \<and> W \<subseteq> weekday ` {A..E}))"
proof -
  from assms(1) have "date_min \<le> A + 1" by (simp add: valid_date_def)
  from date_loop_eq[OF this assms(2), of W "[]"]
  have d: "date_loop A E W [] = Inr (filter (\<lambda>d. weekday d \<in> W) [A..E])" by simp
  show ?thesis
    unfolding d using expand_roundtrip_iff[OF refl] by blast
qed

theorem infer_expand_roundtrip_witness:
  "date_loop 738886 738893 {0, 2} [] = Inr [738886, 738888, 738893]
   \<and> infer_series_pattern
        [\<lparr>b_id = 1, b_room = ''Wetlab'', b_title = ''t'', b_account = ''mumc'', b_who = None,
          b_start = (738886, 36000000000), b_end = (738886, 39600000000),
          b_series_id = Some ''s''\<rparr>,
         \<lparr>b_id = 2, b_room = ''Wetlab'', b_title = ''t'', b_account = ''mumc'', b_who = None,
          b_start = (738888, 36000000000), b_end = (738888, 39600000000),
          b_series_id = Some ''s''\<rparr>,
         \<lparr>b_id = 3, b_room = ''Wetlab'', b_title = ''t'', b_account = ''mumc'', b_who = None,
          b_start = (738893, 36000000000), b_end = (738893, 39600000000),
          b_series_id = Some ''s''\<rparr>]
       = (Some 738886, {0, 2}, Some 738893)"
proof -
  have v: "valid_date 738886" by (simp add: valid_date_def date_min_def date_max_def)
  have e: "(738893::int) < date_max" by (simp add: date_max_def)
  have w: "weekday 738886 = 0" "weekday 738888 = 2" "weekday 738893 = 0"
    by (simp_all add: weekday_def)
  have sub: "{0, 2} \<subseteq> weekday ` {738886..738893}"
  proof -
    have "738886 \<in> {738886..738893::int}" "738888 \<in> {738886..738893::int}" by simp_all
    then have "weekday 738886 \<in> weekday ` {738886..738893}" "weekday 738888 \<in> weekday ` {738886..738893}"
      by blast+
    with w show ?thesis by simp
  qed
  have l: "date_loop 738886 738893 {0, 2} [] = Inr [738886, 738888, 738893]"
    by (simp add: date_loop.simps add_days_def date_min_def date_max_def weekday_def)
  from infer_expand_roundtrip[OF v e, of "{0, 2}"] l w sub
  show ?thesis by (simp add: date_of_def)
qed

text \<open>
  Anchor Monday 2024-01-01, weekday set {Wednesday}, end Monday 2024-01-08: the walk
  yields the one date 2024-01-03, and the pattern inferred from it has that date as
  anchor and as end.
\<close>

theorem infer_expand_roundtrip_counterexample:
  "(738886::int) \<le> 738893
   \<and> date_loop 738886 738893 {2} [] = Inr [738888]
   \<and> infer_series_pattern
        [\<lparr>b_id = 1, b_room = ''Wetlab'', b_title = ''t'', b_account = ''mumc'', b_who = None,
          b_start = (738888, 36000000000), b_end = (738888, 39600000000),
          b_series_id = Some ''s''\<rparr>]
       = (Some 738888, {2}, Some 738888)
   \<and> (Some 738888, {2}, Some 738888) \<noteq> (Some (738886::int), {2::int}, Some (738893::int))"
  by (simp add: date_loop.simps add_days_def date_min_def date_max_def weekday_def infer_series_pattern_def
        date_of_def)

section \<open>Creating bookings: the loop over the candidate dates\<close>

lemma session_add_simps:
  "bookings (session_add st b) = bookings st @ [b\<lparr>b_id := next_id st\<rparr>]"
  "next_id (session_add st b) = Suc (next_id st)"
  by (simp_all add: session_add_def next_id_def split: option.splits)

lemma fold_session_add_bookings:
  "bookings (fold (\<lambda>d s. session_add s (mk d)) ds st)
     = bookings st @ map (\<lambda>(k, d). (mk d)\<lparr>b_id := k\<rparr>) (enumerate (next_id st) ds)
   \<and> next_id (fold (\<lambda>d s. session_add s (mk d)) ds st) = next_id st + length ds"
proof (induction ds arbitrary: st)
  case Nil
  show ?case by simp
next
  case (Cons d ds)
  have "fold (\<lambda>d s. session_add s (mk d)) (d # ds) st
      = fold (\<lambda>d s. session_add s (mk d)) ds (session_add st (mk d))"
    by simp
  then show ?case
    using Cons.IH[of "session_add st (mk d)"]
    by (simp add: session_add_simps)
qed

lemma booking_dates_shape:
  assumes "booking_dates base rd re = Inr (Some ds)"
  shows "\<exists>rest. ds = base # rest \<and> distinct ds \<and> sorted ds"
proof (cases "rd \<noteq> [] \<and> re \<noteq> Empty")
  case False
  with assms show ?thesis by (auto simp: booking_dates_def)
next
  case True
  with assms obtain e W cur where
    l: "date_loop cur e W [base] = Inr ds" and c: "add_days base 1 = Inr cur"
    by (auto simp: booking_dates_def split: field.splits option.splits sum.splits)
  from c have cur: "cur = base + 1" by (simp add: add_days_def split: if_splits)
  from date_loop_Inr[OF l] have ds: "ds = base # filter (\<lambda>d. weekday d \<in> W) [base + 1..e]"
    by (simp add: cur)
  have "sorted (filter (\<lambda>d. weekday d \<in> W) [base + 1..e])"
    by (rule sorted_filter[where f = "\<lambda>x. x", simplified]) simp
  then have "sorted ds" unfolding ds by auto
  moreover have "distinct ds" unfolding ds by auto
  ultimately show ?thesis using ds by blast
qed

lemma overlap_other_day:
  assumes "d' \<noteq> d"
  shows "\<not> (combine d s < combine d' e \<and> combine d e > combine d' s)"
  using assms by (auto simp: combine_def)

lemma new_booking_overlap_session_add:
  assumes "b_start b = combine d s" "b_end b = combine d e" "d' \<noteq> d"
  shows "new_booking_overlap (session_add st b) room (combine d' s) (combine d' e) = None
     \<longleftrightarrow> new_booking_overlap st room (combine d' s) (combine d' e) = None"
proof -
  have "\<not> (b_room b = room \<and> b_start b < combine d' e \<and> b_end b > combine d' s)"
    using overlap_other_day[OF assms(3), of s e] assms(1,2) by simp
  then show ?thesis
    by (auto simp: new_booking_overlap_def first_eq_None filter_empty_conv session_add_simps)
qed

lemma new_booking_loop:
  assumes "distinct ds"
  shows "fold (new_booking_step room title account who s e sid) ds (created, skipped, st)
     = (created + length (filter (\<lambda>d. new_booking_overlap st room (combine d s) (combine d e) = None) ds),
        skipped @ filter (\<lambda>d. new_booking_overlap st room (combine d s) (combine d e) \<noteq> None) ds,
        fold (\<lambda>d st. session_add st
                \<lparr>b_id = 0, b_room = room, b_title = title, b_account = account,
                  b_who = who_or_none who, b_start = combine d s, b_end = combine d e,
                  b_series_id = sid\<rparr>)
             (filter (\<lambda>d. new_booking_overlap st room (combine d s) (combine d e) = None) ds) st)"
  using assms
proof (induction ds arbitrary: created skipped st)
  case Nil
  show ?case by simp
next
  case (Cons d ds)
  from Cons.prems have dist: "distinct ds" and notin: "d \<notin> set ds" by simp_all
  let ?P = "\<lambda>st d. new_booking_overlap st room (combine d s) (combine d e) = None"
  let ?Q = "\<lambda>st d. new_booking_overlap st room (combine d s) (combine d e) \<noteq> None"
  let ?mk = "\<lambda>d. \<lparr>b_id = 0, b_room = room, b_title = title, b_account = account,
                  b_who = who_or_none who, b_start = combine d s, b_end = combine d e,
                  b_series_id = sid\<rparr>"
  let ?step = "new_booking_step room title account who s e sid"
  have unfold: "fold ?step (d # ds) (created, skipped, st)
      = fold ?step ds (?step d (created, skipped, st))"
    by simp
  show ?case
  proof (cases "new_booking_overlap st room (combine d s) (combine d e)")
    case (Some r)
    then have step: "?step d (created, skipped, st) = (created, skipped @ [d], st)"
      by (simp add: new_booking_step_def)
    from Some have fl: "filter (?P st) (d # ds) = filter (?P st) ds"
      "filter (?Q st) (d # ds) = d # filter (?Q st) ds"
      by simp_all
    show ?thesis
      unfolding unfold step fl Cons.IH[OF dist] by simp
  next
    case None
    then have step: "?step d (created, skipped, st) = (created + 1, skipped, session_add st (?mk d))"
      by (simp add: new_booking_step_def)
    from None have fl: "filter (?P st) (d # ds) = d # filter (?P st) ds"
      "filter (?Q st) (d # ds) = filter (?Q st) ds"
      by simp_all
    have eq: "?P (session_add st (?mk d)) d' = ?P st d'" if "d' \<in> set ds" for d'
    proof -
      from that notin have "d' \<noteq> d" by auto
      then show ?thesis
        by (intro new_booking_overlap_session_add) simp_all
    qed
    have f1: "filter (?P (session_add st (?mk d))) ds = filter (?P st) ds"
      by (rule filter_cong[OF refl]) (rule eq)
    have f2: "filter (?Q (session_add st (?mk d))) ds = filter (?Q st) ds"
      by (rule filter_cong[OF refl]) (rule arg_cong[where f = Not], rule eq)
    show ?thesis
      unfolding unfold step fl Cons.IH[OF dist] f1 f2 by simp
  qed
qed

lemma new_booking_result:
  assumes room: "f_room f \<in> set ROOMS" and title: "f_title f \<noteq> []"
    and d: "f_date f = Valid base" "f_start_time f = Valid s" "f_end_time f = Valid e"
    and se: "s < e"
    and bd: "booking_dates base (f_repeat_days f) (f_repeat_end f) = Inr (Some ds)"
  shows "new_booking st me uuid f
     = Inr (Created
              (length (filter (\<lambda>d. new_booking_overlap st (f_room f) (combine d s) (combine d e) = None) ds))
              (filter (\<lambda>d. new_booking_overlap st (f_room f) (combine d s) (combine d e) \<noteq> None) ds),
            fold (\<lambda>d st. session_add st
                    \<lparr>b_id = 0, b_room = f_room f, b_title = f_title f, b_account = me,
                      b_who = who_or_none (f_who f), b_start = combine d s, b_end = combine d e,
                      b_series_id = (if 1 < length ds then Some uuid else None)\<rparr>)
                 (filter (\<lambda>d. new_booking_overlap st (f_room f) (combine d s) (combine d e) = None) ds)
                 st)"
proof -
  from booking_dates_shape[OF bd] have dist: "distinct ds" by blast
  have t: "time_of (combine base s) = s" "time_of (combine base e) = e"
    by (simp_all add: time_of_def combine_def)
  have cmp: "\<not> combine base e \<le> combine base s"
    using se by (simp add: combine_def)
  show ?thesis
    unfolding new_booking_def
    using room title d cmp
    by (simp add: Let_def bd t new_booking_loop[OF dist] del: not_None_eq)
qed

lemma new_booking_CreatedD:
  assumes "new_booking st me uuid f = Inr (Created n sk, st')"
  shows "\<exists>base s e ds. f_room f \<in> set ROOMS \<and> f_title f \<noteq> [] \<and> f_date f = Valid base
      \<and> f_start_time f = Valid s \<and> f_end_time f = Valid e \<and> s < e
      \<and> booking_dates base (f_repeat_days f) (f_repeat_end f) = Inr (Some ds)"
proof -
  from assms have room: "f_room f \<in> set ROOMS"
    by (auto simp: new_booking_def split: if_splits)
  from assms room have title: "f_title f \<noteq> []"
    by (auto simp: new_booking_def split: if_splits)
  from assms room title obtain base s e where
    d: "f_date f = Valid base" "f_start_time f = Valid s" "f_end_time f = Valid e"
    by (cases "f_date f"; cases "f_start_time f"; cases "f_end_time f")
       (simp_all add: new_booking_def)
  from assms room title d have se: "s < e"
    by (auto simp: new_booking_def Let_def combine_def split: if_splits)
  from assms room title d se obtain ds where
    "booking_dates base (f_repeat_days f) (f_repeat_end f) = Inr (Some ds)"
    by (cases "booking_dates base (f_repeat_days f) (f_repeat_end f)")
       (auto simp: new_booking_def Let_def combine_def split: option.splits)
  with room title d se show ?thesis by blast
qed

lemma new_booking_example:
  "new_booking
     \<lparr>bookings = [\<lparr>b_id = 1, b_room = ''Wetlab'', b_title = ''x'', b_account = ''mumc'',
                    b_who = None, b_start = (738888, 37800000000),
                    b_end = (738888, 41400000000), b_series_id = None\<rparr>],
      sequence = None\<rparr>
     ''mumc'' ''u1''
     \<lparr>f_room = ''Wetlab'', f_title = ''t'', f_who = [], f_date = Valid 738886,
      f_start_time = Valid 36000000000, f_end_time = Valid 39600000000,
      f_repeat_days = [Some 0, Some 2], f_repeat_end = Valid 738893\<rparr>
   = Inr (Created 2 [738888],
       \<lparr>bookings = [\<lparr>b_id = 1, b_room = ''Wetlab'', b_title = ''x'', b_account = ''mumc'',
                    b_who = None, b_start = (738888, 37800000000),
                    b_end = (738888, 41400000000), b_series_id = None\<rparr>,
                   \<lparr>b_id = 2, b_room = ''Wetlab'', b_title = ''t'', b_account = ''mumc'',
                    b_who = None, b_start = (738886, 36000000000),
                    b_end = (738886, 39600000000), b_series_id = Some ''u1''\<rparr>,
                   \<lparr>b_id = 3, b_room = ''Wetlab'', b_title = ''t'', b_account = ''mumc'',
                    b_who = None, b_start = (738893, 36000000000),
                    b_end = (738893, 39600000000), b_series_id = Some ''u1''\<rparr>],
        sequence = None\<rparr>)"
proof -
  let ?f = "\<lparr>f_room = ''Wetlab'', f_title = ''t'', f_who = [], f_date = Valid 738886,
      f_start_time = Valid 36000000000, f_end_time = Valid 39600000000,
      f_repeat_days = [Some 0, Some 2], f_repeat_end = Valid 738893\<rparr>"
  have bd: "booking_dates 738886 (f_repeat_days ?f) (f_repeat_end ?f)
      = Inr (Some [738886, 738888, 738893])"
    by (simp add: booking_dates_def int_set_def add_days_def date_min_def date_max_def
          date_loop.simps weekday_def)
  have h: "f_room ?f \<in> set ROOMS" "f_title ?f \<noteq> []" "f_date ?f = Valid 738886"
    "f_start_time ?f = Valid 36000000000" "f_end_time ?f = Valid 39600000000"
    "(36000000000::nat) < 39600000000"
    by (simp_all add: ROOMS_def)
  show ?thesis
    unfolding new_booking_result[OF h bd]
    by (simp add: new_booking_overlap_def first_def who_or_none_def combine_def
          session_add_def next_id_def numeral_2_eq_2 numeral_3_eq_3)
qed

section \<open>Creation skips conflicting dates\<close>



section \<open>The bookings of one creation request\<close>

lemma rows_per_date:
  fixes fs :: "date list"
  assumes dist: "distinct fs"
    and new: "new = map (\<lambda>(k, d). mk k d) (enumerate n fs)"
    and st: "\<And>k d. b_start (mk k d) = combine d s"
    and en: "\<And>k d. b_end (mk k d) = combine d e"
  shows "map (\<lambda>b. date_of (b_start b)) new = fs"
    and "\<forall>b\<in>set new. \<exists>d. b_start b = combine d s \<and> b_end b = combine d e"
    and "\<forall>i<length new. \<forall>j<length new. i \<noteq> j \<longrightarrow>
           \<not> spec_overlaps (b_start (new ! i), b_end (new ! i))
                            (b_start (new ! j), b_end (new ! j))"
proof -
  have "map (\<lambda>b. date_of (b_start b)) new = map snd (enumerate n fs)"
    unfolding new map_map by (rule map_cong[OF refl]) (auto simp: st date_of_def combine_def)
  then show "map (\<lambda>b. date_of (b_start b)) new = fs" by simp
  show "\<forall>b\<in>set new. \<exists>d. b_start b = combine d s \<and> b_end b = combine d e"
    unfolding new using st en by auto
  have len: "length new = length fs" unfolding new by simp
  have nth: "new ! i = mk (n + i) (fs ! i)" if "i < length fs" for i
    unfolding new using that by (simp add: nth_enumerate_eq)
  show "\<forall>i<length new. \<forall>j<length new. i \<noteq> j \<longrightarrow>
           \<not> spec_overlaps (b_start (new ! i), b_end (new ! i))
                            (b_start (new ! j), b_end (new ! j))"
  proof (intro allI impI)
    fix i j assume i: "i < length new" and j: "j < length new" and ij: "i \<noteq> j"
    from i j ij dist len have "fs ! j \<noteq> fs ! i"
      by (simp add: nth_eq_iff_index_eq)
    from overlap_other_day[OF this, of s e] i j len
    show "\<not> spec_overlaps (b_start (new ! i), b_end (new ! i))
                            (b_start (new ! j), b_end (new ! j))"
      by (simp add: nth st en spec_overlaps_def)
  qed
qed

lemma new_booking_created_rows:
  assumes "new_booking st me uuid f = Inr (Created n sk, st')"
  shows "\<exists>s e fs mk. f_start_time f = Valid s \<and> f_end_time f = Valid e \<and> s < e
      \<and> distinct fs \<and> length fs = n
      \<and> bookings st' = bookings st @ map (\<lambda>(k, d). mk k d) (enumerate (next_id st) fs)
      \<and> (\<forall>k d. b_start (mk k d) = combine d s \<and> b_end (mk k d) = combine d e)"
proof -
  from new_booking_CreatedD[OF assms] obtain base s e ds where
    h: "f_room f \<in> set ROOMS" "f_title f \<noteq> []" "f_date f = Valid base"
       "f_start_time f = Valid s" "f_end_time f = Valid e" "s < e"
       "booking_dates base (f_repeat_days f) (f_repeat_end f) = Inr (Some ds)"
    by blast
  let ?P = "\<lambda>d. new_booking_overlap st (f_room f) (combine d s) (combine d e) = None"
  let ?mk = "\<lambda>d. \<lparr>b_id = 0, b_room = f_room f, b_title = f_title f, b_account = me,
                    b_who = who_or_none (f_who f), b_start = combine d s, b_end = combine d e,
                    b_series_id = (if 1 < length ds then Some uuid else None)\<rparr>"
  from new_booking_result[OF h, of st me uuid] assms
  have n: "n = length (filter ?P ds)"
    and st': "st' = fold (\<lambda>d st. session_add st (?mk d)) (filter ?P ds) st"
    by simp_all
  from booking_dates_shape[OF h(7)] have "distinct ds" by blast
  then have dist: "distinct (filter ?P ds)" by simp
  have rows: "bookings st' = bookings st @
      map (\<lambda>(k, d). (?mk d)\<lparr>b_id := k\<rparr>) (enumerate (next_id st) (filter ?P ds))"
    unfolding st' using fold_session_add_bookings[of ?mk "filter ?P ds" st] by blast
  have "\<forall>k d. b_start ((?mk d)\<lparr>b_id := k\<rparr>) = combine d s
            \<and> b_end ((?mk d)\<lparr>b_id := k\<rparr>) = combine d e"
    by simp
  with h(4,5,6) dist n rows show ?thesis
    by (intro exI[of _ s] exI[of _ e] exI[of _ "filter ?P ds"]
          exI[of _ "\<lambda>k d. (?mk d)\<lparr>b_id := k\<rparr>"]) simp
qed

text \<open>
  C8. The candidate dates of a creation request are pairwise distinct, and the
  bookings one request creates are appended to the table, one per created date, on
  pairwise distinct dates; each starts and ends on its own date at the submitted start
  and end times of day, and no two of them overlap.
\<close>

theorem new_booking_series_disjoint:
  "(booking_dates base rd re = Inr (Some ds) \<longrightarrow> distinct ds)
   \<and> (new_booking st me uuid f = Inr (Created n skipped, st') \<longrightarrow>
       (\<exists>new. bookings st' = bookings st @ new \<and> length new = n
          \<and> distinct (map (\<lambda>b. date_of (b_start b)) new)
          \<and> (\<forall>b\<in>set new. date_of (b_end b) = date_of (b_start b)
                \<and> f_start_time f = Valid (time_of (b_start b))
                \<and> f_end_time f = Valid (time_of (b_end b)))
          \<and> (\<forall>i<length new. \<forall>j<length new. i \<noteq> j \<longrightarrow>
                \<not> spec_overlaps (b_start (new ! i), b_end (new ! i))
                                 (b_start (new ! j), b_end (new ! j)))))"
proof (intro conjI impI)
  assume "booking_dates base rd re = Inr (Some ds)"
  from booking_dates_shape[OF this] show "distinct ds" by blast
next
  assume a: "new_booking st me uuid f = Inr (Created n skipped, st')"
  from new_booking_created_rows[OF a] obtain s e fs mk where
    t: "f_start_time f = Valid s" "f_end_time f = Valid e"
    and dist: "distinct fs" and len: "length fs = n"
    and rows: "bookings st' = bookings st @ map (\<lambda>(k, d). mk k d) (enumerate (next_id st) fs)"
    and st: "\<And>k d. b_start (mk k d) = combine d s"
    and en: "\<And>k d. b_end (mk k d) = combine d e"
    by blast
  define new where "new = map (\<lambda>(k, d). mk k d) (enumerate (next_id st) fs)"
  note p = rows_per_date[OF dist new_def st en]
  have "\<forall>b\<in>set new. date_of (b_end b) = date_of (b_start b)
                \<and> f_start_time f = Valid (time_of (b_start b))
                \<and> f_end_time f = Valid (time_of (b_end b))"
    using p(2) t by (auto simp: date_of_def time_of_def combine_def)
  moreover have "length new = n" using len by (simp add: new_def)
  moreover have "distinct (map (\<lambda>b. date_of (b_start b)) new)" using p(1) dist by simp
  moreover have "bookings st' = bookings st @ new" using rows by (simp add: new_def)
  ultimately show "\<exists>new. bookings st' = bookings st @ new \<and> length new = n
          \<and> distinct (map (\<lambda>b. date_of (b_start b)) new)
          \<and> (\<forall>b\<in>set new. date_of (b_end b) = date_of (b_start b)
                \<and> f_start_time f = Valid (time_of (b_start b))
                \<and> f_end_time f = Valid (time_of (b_end b)))
          \<and> (\<forall>i<length new. \<forall>j<length new. i \<noteq> j \<longrightarrow>
                \<not> spec_overlaps (b_start (new ! i), b_end (new ! i))
                                 (b_start (new ! j), b_end (new ! j)))"
    using p(3) by blast
qed

theorem new_booking_series_disjoint_witness:
  "distinct [738886, 738888, 738893 :: int]
   \<and> \<not> spec_overlaps ((738886, 36000000000), (738886, 39600000000))
                      ((738893, 36000000000), (738893, 39600000000))"
proof -
  let ?st0 = "\<lparr>bookings = [\<lparr>b_id = 1, b_room = ''Wetlab'', b_title = ''x'', b_account = ''mumc'',
                    b_who = None, b_start = (738888, 37800000000),
                    b_end = (738888, 41400000000), b_series_id = None\<rparr>],
      sequence = None\<rparr>"
  let ?f = "\<lparr>f_room = ''Wetlab'', f_title = ''t'', f_who = [], f_date = Valid 738886,
      f_start_time = Valid 36000000000, f_end_time = Valid 39600000000,
      f_repeat_days = [Some 0, Some 2], f_repeat_end = Valid 738893\<rparr>"
  let ?r2 = "\<lparr>b_id = 2, b_room = ''Wetlab'', b_title = ''t'', b_account = ''mumc'',
                    b_who = None, b_start = (738886, 36000000000),
                    b_end = (738886, 39600000000), b_series_id = Some ''u1''\<rparr>"
  let ?r3 = "\<lparr>b_id = 3, b_room = ''Wetlab'', b_title = ''t'', b_account = ''mumc'',
                    b_who = None, b_start = (738893, 36000000000),
                    b_end = (738893, 39600000000), b_series_id = Some ''u1''\<rparr>"
  let ?st1 = "\<lparr>bookings = [\<lparr>b_id = 1, b_room = ''Wetlab'', b_title = ''x'', b_account = ''mumc'',
                    b_who = None, b_start = (738888, 37800000000),
                    b_end = (738888, 41400000000), b_series_id = None\<rparr>, ?r2, ?r3],
        sequence = None\<rparr>"
  have bd: "booking_dates 738886 [Some 0, Some 2] (Valid 738893)
      = Inr (Some [738886, 738888, 738893])"
    by (simp add: booking_dates_def int_set_def add_days_def date_min_def date_max_def
          date_loop.simps weekday_def)
  note t = new_booking_series_disjoint[of 738886 "[Some 0, Some 2]" "Valid 738893"
      "[738886, 738888, 738893]" ?st0 "''mumc''" "''u1''" ?f 2 "[738888]" ?st1]
  from t bd have d: "distinct [738886, 738888, 738893 :: int]" by blast
  from t new_booking_example obtain new where
    n: "bookings ?st1 = bookings ?st0 @ new"
    and o: "\<forall>i<length new. \<forall>j<length new. i \<noteq> j \<longrightarrow>
                \<not> spec_overlaps (b_start (new ! i), b_end (new ! i))
                                 (b_start (new ! j), b_end (new ! j))"
    by blast
  from n have new: "new = [?r2, ?r3]" by simp
  from o[rule_format, of 0 1] have
    "\<not> spec_overlaps ((738886, 36000000000), (738886, 39600000000))
                      ((738893, 36000000000), (738893, 39600000000))"
    unfolding new by simp
  with d show ?thesis by blast
qed

section \<open>Editing: what a request can change\<close>

lemma session_delete_simps:
  "bookings (session_delete st occ) = filter (\<lambda>r. b_id r \<noteq> b_id occ) (bookings st)"
  "sequence (session_delete st occ) = sequence st"
  by (simp_all add: session_delete_def)

lemma fold_session_delete:
  "fold (\<lambda>occ s. session_delete s occ) occs st
     = st\<lparr>bookings := filter (\<lambda>r. b_id r \<notin> b_id ` set occs) (bookings st)\<rparr>"
proof (induction occs arbitrary: st)
  case Nil
  show ?case by simp
next
  case (Cons occ occs)
  have "fold (\<lambda>occ s. session_delete s occ) (occ # occs) st
      = fold (\<lambda>occ s. session_delete s occ) occs (session_delete st occ)"
    by simp
  also have "\<dots> = (session_delete st occ)
      \<lparr>bookings := filter (\<lambda>r. b_id r \<notin> b_id ` set occs) (bookings (session_delete st occ))\<rparr>"
    by (rule Cons.IH)
  also have "\<dots> = st\<lparr>bookings := filter (\<lambda>r. b_id r \<notin> b_id ` set (occ # occs)) (bookings st)\<rparr>"
    by (simp add: session_delete_def conj_commute)
  finally show ?case .
qed

text \<open>
  The rows after a series replacement: the rows that are not occurrences of the series,
  then one row per new date, keyed from the next key of the table without the old
  occurrences.
\<close>

lemma replace_series_bookings:
  "bookings (replace_series st occs room title who account s e sid ds)
     = filter (\<lambda>r. b_id r \<notin> b_id ` set occs) (bookings st)
       @ map (\<lambda>(k, d). \<lparr>b_id = k, b_room = room, b_title = title, b_account = account,
                          b_who = who_or_none who, b_start = combine d s,
                          b_end = combine d e, b_series_id = sid\<rparr>)
             (enumerate
                (next_id (st\<lparr>bookings := filter (\<lambda>r. b_id r \<notin> b_id ` set occs) (bookings st)\<rparr>))
                ds)"
proof -
  let ?mk = "\<lambda>d. \<lparr>b_id = 0, b_room = room, b_title = title, b_account = account,
               b_who = who_or_none who, b_start = combine d s,
               b_end = combine d e, b_series_id = sid\<rparr>"
  let ?st1 = "st\<lparr>bookings := filter (\<lambda>r. b_id r \<notin> b_id ` set occs) (bookings st)\<rparr>"
  have r: "replace_series st occs room title who account s e sid ds
      = fold (\<lambda>d s. session_add s (?mk d)) ds ?st1"
    by (simp add: replace_series_def fold_session_delete)
  have upd: "(\<lambda>(k, d). (?mk d)\<lparr>b_id := k\<rparr>)
      = (\<lambda>(k, d). \<lparr>b_id = k, b_room = room, b_title = title, b_account = account,
                          b_who = who_or_none who, b_start = combine d s,
                          b_end = combine d e, b_series_id = sid\<rparr>)"
    by (simp add: fun_eq_iff)
  show ?thesis
    unfolding r using fold_session_add_bookings[of ?mk ds ?st1]
    unfolding upd by simp
qed

lemma edit_series_cases:
  assumes "edit_series st b sid f ns ne = Inr (resp, st')"
  shows "(st' = st \<and> (\<forall>n. resp \<noteq> SeriesUpdated n))
     \<or> (\<exists>new_dates. resp = SeriesUpdated (length new_dates)
           \<and> series_conflicts st (f_room f) (b_series_id b) (time_of ns) (time_of ne) new_dates = []
           \<and> st' = replace_series st (get_series_occurrences st sid) (f_room f) (f_title f)
                     (f_who f) (b_account b) (time_of ns) (time_of ne) (b_series_id b) new_dates)"
  using assms
  by (auto simp: edit_series_def Let_def
           split: prod.splits option.splits if_splits field.splits sum.splits)

lemma edit_single_cases:
  assumes "edit_single st b f ns ne = Inr (resp, st')"
  shows "(st' = st \<and> resp = SingleConflict)
     \<or> (resp = BookingUpdated
         \<and> single_edit_conflict st (b_id b) (f_room f) ns ne = None
         \<and> st' = st\<lparr>bookings :=
                    map (\<lambda>r. if b_id r = b_id b
                             then r\<lparr>b_room := f_room f, b_title := f_title f,
                                    b_who := who_or_none (f_who f),
                                    b_start := ns, b_end := ne\<rparr>
                             else r)
                        (bookings st)\<rparr>)"
  using assms
  by (auto simp: edit_single_def split: option.splits)

lemma edit_booking_cases:
  assumes "edit_booking st bid f = Inr (resp, st')"
  shows "(st' = st \<and> resp \<in> {NotFound, MissingFields, InvalidDateTime, EndNotAfterStart})
     \<or> (\<exists>b nd s e. find (\<lambda>r. b_id r = bid) (bookings st) = Some b
           \<and> f_room f \<in> set ROOMS \<and> f_title f \<noteq> []
           \<and> f_date f = Valid nd \<and> f_start_time f = Valid s \<and> f_end_time f = Valid e
           \<and> s < e
           \<and> ((\<exists>sid. b_series_id b = Some sid \<and> sid \<noteq> []
                  \<and> edit_series st b sid f (combine nd s) (combine nd e) = Inr (resp, st'))
              \<or> ((b_series_id b = None \<or> b_series_id b = Some [])
                  \<and> edit_single st b f (combine nd s) (combine nd e) = Inr (resp, st'))))"
proof (cases "find (\<lambda>r. b_id r = bid) (bookings st)")
  case None
  with assms show ?thesis by (simp add: edit_booking_def)
next
  case (Some b)
  show ?thesis
  proof (cases "f_room f \<notin> set ROOMS \<or> f_title f = [] \<or> f_date f = Empty
               \<or> f_start_time f = Empty \<or> f_end_time f = Empty")
    case True
    with assms Some show ?thesis by (auto simp: edit_booking_def)
  next
    case False
    note ok = this
    show ?thesis
    proof (cases "\<exists>nd s e. f_date f = Valid nd \<and> f_start_time f = Valid s \<and> f_end_time f = Valid e")
      case False
      with assms Some ok have "st' = st \<and> resp = InvalidDateTime"
        by (cases "f_date f"; cases "f_start_time f"; cases "f_end_time f")
           (simp_all add: edit_booking_def)
      then show ?thesis by simp
    next
      case True
      then obtain nd s e where
        v: "f_date f = Valid nd" "f_start_time f = Valid s" "f_end_time f = Valid e"
        by blast
      show ?thesis
      proof (cases "s < e")
        case False
        with assms Some ok v have "st' = st \<and> resp = EndNotAfterStart"
          by (simp add: edit_booking_def combine_def)
        then show ?thesis by simp
      next
        case True
        then have cmp: "\<not> combine nd e \<le> combine nd s" by (simp add: combine_def)
        from assms Some ok v cmp
        have "(case b_series_id b of
                 Some sid \<Rightarrow> if sid \<noteq> [] then edit_series st b sid f (combine nd s) (combine nd e)
                             else edit_single st b f (combine nd s) (combine nd e)
               | None \<Rightarrow> edit_single st b f (combine nd s) (combine nd e)) = Inr (resp, st')"
          by (simp add: edit_booking_def Let_def)
        then have "(\<exists>sid. b_series_id b = Some sid \<and> sid \<noteq> []
                  \<and> edit_series st b sid f (combine nd s) (combine nd e) = Inr (resp, st'))
              \<or> ((b_series_id b = None \<or> b_series_id b = Some [])
                  \<and> edit_single st b f (combine nd s) (combine nd e) = Inr (resp, st'))"
          by (cases "b_series_id b") (auto split: if_splits)
        with Some ok v True show ?thesis by blast
      qed
    qed
  qed
qed

section \<open>Persisted bookings stay within one day\<close>

lemma new_booking_cases:
  assumes "new_booking st me uuid f = Inr (resp, st')"
  shows "st' = st \<or> (\<exists>n sk. resp = Created n sk)"
  using assms
  by (auto simp: new_booking_def Let_def
           split: if_splits field.splits sum.splits option.splits prod.splits)

lemma same_day_row:
  assumes "b_start r = combine d s" "b_end r = combine d e" "s < e"
  shows "date_of (b_start r) = date_of (b_end r) \<and> b_start r < b_end r"
  using assms by (simp add: date_of_def combine_def)

lemma new_booking_same_day:
  assumes "new_booking st me uuid f = Inr (resp, st')" and "r \<in> set (bookings st')"
  shows "r \<in> set (bookings st) \<or> (date_of (b_start r) = date_of (b_end r) \<and> b_start r < b_end r)"
proof -
  from new_booking_cases[OF assms(1)] show ?thesis
  proof
    assume "st' = st"
    with assms(2) show ?thesis by simp
  next
    assume "\<exists>n sk. resp = Created n sk"
    then obtain n sk where "new_booking st me uuid f = Inr (Created n sk, st')"
      using assms(1) by auto
    from new_booking_created_rows[OF this] obtain s e fs mk where
      se: "s < e"
      and rows: "bookings st' = bookings st @ map (\<lambda>(k, d). mk k d) (enumerate (next_id st) fs)"
      and mk: "\<forall>k d. b_start (mk k d) = combine d s \<and> b_end (mk k d) = combine d e"
      by blast
    from assms(2) rows have "r \<in> set (bookings st) \<or> (\<exists>k d. r = mk k d)"
      by auto
    with mk se show ?thesis
      using same_day_row by blast
  qed
qed

lemma edit_booking_same_day:
  assumes "edit_booking st bid f = Inr (resp, st')" and "r \<in> set (bookings st')"
  shows "r \<in> set (bookings st) \<or> (date_of (b_start r) = date_of (b_end r) \<and> b_start r < b_end r)"
proof -
  from edit_booking_cases[OF assms(1)] consider
      (same) "st' = st"
    | (series) b nd s e sid where "s < e"
        "edit_series st b sid f (combine nd s) (combine nd e) = Inr (resp, st')"
    | (single) b nd s e where "s < e"
        "edit_single st b f (combine nd s) (combine nd e) = Inr (resp, st')"
    by blast
  then show ?thesis
  proof cases
    case same
    with assms(2) show ?thesis by simp
  next
    case (series b nd s e sid)
    note se = series(1) and es = series(2)
    from edit_series_cases[OF es] show ?thesis
    proof (elim disjE exE conjE)
      assume "st' = st"
      with assms(2) show ?thesis by simp
    next
      fix new_dates
      assume "st' = replace_series st (get_series_occurrences st sid) (f_room f) (f_title f)
                     (f_who f) (b_account b) (time_of (combine nd s)) (time_of (combine nd e))
                     (b_series_id b) new_dates"
      then have "bookings st' = filter (\<lambda>r. b_id r \<notin> b_id ` set (get_series_occurrences st sid)) (bookings st)
          @ map (\<lambda>(k, d). \<lparr>b_id = k, b_room = f_room f, b_title = f_title f,
                            b_account = b_account b, b_who = who_or_none (f_who f),
                            b_start = combine d s, b_end = combine d e,
                            b_series_id = b_series_id b\<rparr>)
                (enumerate
                   (next_id (st\<lparr>bookings := filter (\<lambda>r. b_id r
                       \<notin> b_id ` set (get_series_occurrences st sid)) (bookings st)\<rparr>))
                   new_dates)"
        by (simp add: replace_series_bookings time_of_def combine_def)
      with assms(2) have "r \<in> set (bookings st)
          \<or> (\<exists>d. b_start r = combine d s \<and> b_end r = combine d e)"
        by auto
      with se show ?thesis using same_day_row by blast
    qed
  next
    case (single b nd s e)
    note se = single(1) and es = single(2)
    from edit_single_cases[OF es] show ?thesis
    proof (elim disjE conjE)
      assume "st' = st"
      with assms(2) show ?thesis by simp
    next
      assume "st' = st\<lparr>bookings :=
                    map (\<lambda>r. if b_id r = b_id b
                             then r\<lparr>b_room := f_room f, b_title := f_title f,
                                    b_who := who_or_none (f_who f),
                                    b_start := combine nd s, b_end := combine nd e\<rparr>
                             else r)
                        (bookings st)\<rparr>"
      with assms(2) have "r \<in> set (bookings st)
          \<or> (b_start r = combine nd s \<and> b_end r = combine nd e)"
        by (auto split: if_splits)
      with se show ?thesis using same_day_row by blast
    qed
  qed
qed

text \<open>
  C9. Every row of the table after a creation request or an edit request (series
  replacement or single edit) either was in the table before the request, unchanged,
  or starts and ends on the same calendar date with its end strictly after its start.
\<close>

theorem persisted_bookings_within_one_day:
  "(new_booking st me uuid f = Inr (resp, st') \<longrightarrow>
      (\<forall>r\<in>set (bookings st'). r \<in> set (bookings st)
          \<or> (date_of (b_start r) = date_of (b_end r) \<and> b_start r < b_end r)))
   \<and> (edit_booking st bid f = Inr (resp, st') \<longrightarrow>
      (\<forall>r\<in>set (bookings st'). r \<in> set (bookings st)
          \<or> (date_of (b_start r) = date_of (b_end r) \<and> b_start r < b_end r)))"
  using new_booking_same_day edit_booking_same_day by blast

section \<open>Editing a series: the pre-check decides\<close>

lemma edit_series_result:
  assumes infer: "infer_series_pattern (get_series_occurrences st sid) = (Some anchor, cur_days, cur_end)"
    and days: "(if f_repeat_days f = [] then Some cur_days else int_set (f_repeat_days f)) = Some W"
      "W \<noteq> {}"
    and ends: "(case f_repeat_end f of Empty \<Rightarrow> cur_end | Invalid \<Rightarrow> None | Valid d \<Rightarrow> Some d) = Some E"
      "anchor \<le> E"
    and walk: "date_loop anchor E W [] = Inr new_dates"
  shows "edit_series st b sid f ns ne
     = (if series_conflicts st (f_room f) (b_series_id b) (time_of ns) (time_of ne) new_dates \<noteq> []
        then Inr (Conflicts (series_conflicts st (f_room f) (b_series_id b) (time_of ns)
                               (time_of ne) new_dates), st)
        else Inr (SeriesUpdated (length new_dates),
                  replace_series st (get_series_occurrences st sid) (f_room f) (f_title f)
                    (f_who f) (b_account b) (time_of ns) (time_of ne) (b_series_id b)
                    new_dates))"
proof -
  have e: "(case f_repeat_end f of Empty \<Rightarrow> Some cur_end | Invalid \<Rightarrow> None | Valid d \<Rightarrow> Some (Some d))
      = Some (Some E)"
    using ends(1) by (cases "f_repeat_end f") simp_all
  from ends(2) have ne: "\<not> E < anchor" by simp
  show ?thesis
    unfolding edit_series_def Let_def infer prod.case days(1) option.case e
    using days(2) ne by (simp add: walk)
qed

lemma edit_booking_series_path:
  assumes "find (\<lambda>r. b_id r = bid) (bookings st) = Some b"
    and "b_series_id b = Some sid" and "sid \<noteq> []"
    and "f_room f \<in> set ROOMS" and "f_title f \<noteq> []"
    and "f_date f = Valid nd" and "f_start_time f = Valid s" and "f_end_time f = Valid e"
    and "s < e"
  shows "edit_booking st bid f = edit_series st b sid f (combine nd s) (combine nd e)"
proof -
  from assms(9) have "\<not> combine nd e \<le> combine nd s" by (simp add: combine_def)
  with assms show ?thesis by (simp add: edit_booking_def Let_def)
qed

text \<open>
  A series edit that passes validation walks the new pattern into the date list
  \<open>new_dates\<close> and runs the pre-check query on every date. If the query finds a row
  for at least one date, the request answers with exactly the dates for which it found
  one, in order, and the database is left as it was. Only if it finds none are the old
  occurrences deleted and one booking added for each new date.
\<close>

lemma series_edit_by_precheck:
  assumes "find (\<lambda>r. b_id r = bid) (bookings st) = Some b"
    and "b_series_id b = Some sid" and "sid \<noteq> []"
    and "f_room f \<in> set ROOMS" and "f_title f \<noteq> []"
    and "f_date f = Valid nd" and "f_start_time f = Valid s" and "f_end_time f = Valid e"
    and "s < e"
    and "infer_series_pattern (get_series_occurrences st sid) = (Some anchor, cur_days, cur_end)"
    and "(if f_repeat_days f = [] then Some cur_days else int_set (f_repeat_days f)) = Some W"
    and "W \<noteq> {}"
    and "(case f_repeat_end f of Empty \<Rightarrow> cur_end | Invalid \<Rightarrow> None | Valid d \<Rightarrow> Some d) = Some E"
    and "anchor \<le> E"
    and "date_loop anchor E W [] = Inr new_dates"
    and "conflicts = filter (\<lambda>d. series_edit_conflict st (f_room f) (Some sid)
                                  (combine d s) (combine d e) \<noteq> None) new_dates"
  shows "(conflicts \<noteq> [] \<longrightarrow> edit_booking st bid f = Inr (Conflicts conflicts, st))
     \<and> (conflicts = [] \<longrightarrow>
          (\<exists>st'. edit_booking st bid f = Inr (SeriesUpdated (length new_dates), st')
             \<and> bookings st' =
                 filter (\<lambda>r. b_id r \<notin> b_id ` set (get_series_occurrences st sid)) (bookings st)
                 @ map (\<lambda>(k, d). \<lparr>b_id = k, b_room = f_room f, b_title = f_title f,
                                   b_account = b_account b, b_who = who_or_none (f_who f),
                                   b_start = combine d s, b_end = combine d e,
                                   b_series_id = Some sid\<rparr>)
                       (enumerate
                          (next_id (st\<lparr>bookings := filter (\<lambda>r. b_id r
                              \<notin> b_id ` set (get_series_occurrences st sid)) (bookings st)\<rparr>))
                          new_dates)))"
proof -
  have t: "time_of (combine nd s) = s" "time_of (combine nd e) = e"
    by (simp_all add: time_of_def combine_def)
  have c: "series_conflicts st (f_room f) (b_series_id b) s e new_dates = conflicts"
    by (simp add: series_conflicts_def assms(2,16) del: not_None_eq)
  have r: "edit_booking st bid f
     = (if conflicts \<noteq> [] then Inr (Conflicts conflicts, st)
        else Inr (SeriesUpdated (length new_dates),
                  replace_series st (get_series_occurrences st sid) (f_room f) (f_title f)
                    (f_who f) (b_account b) s e (Some sid) new_dates))"
    unfolding edit_booking_series_path[OF assms(1-9)]
      edit_series_result[OF assms(10-15)] t c
    by (simp add: assms(2))
  show ?thesis
    unfolding r by (simp add: replace_series_bookings)
qed
section \<open>A series edit next to a one-off booking\<close>

lemma example_pattern:
  "infer_series_pattern
     [\<lparr>b_id = 1, b_room = ''Wetlab'', b_title = ''t'', b_account = ''mumc'', b_who = None,
       b_start = (738886, 36000000000), b_end = (738886, 39600000000),
       b_series_id = Some ''s1''\<rparr>,
      \<lparr>b_id = 2, b_room = ''Wetlab'', b_title = ''t'', b_account = ''mumc'', b_who = None,
       b_start = (738888, 36000000000), b_end = (738888, 39600000000),
       b_series_id = Some ''s1''\<rparr>]
   = (Some 738886, {0, 2}, Some 738888)"
  by (simp add: infer_series_pattern_def date_of_def weekday_def)

lemma example_walk:
  "date_loop 738886 738893 {0, 2} [] = Inr [738886, 738888, 738893]"
  by (simp add: date_loop.simps add_days_def date_min_def date_max_def weekday_def)

lemma edit_booking_example:
  "edit_booking
     \<lparr>bookings =
        [\<lparr>b_id = 1, b_room = ''Wetlab'', b_title = ''t'', b_account = ''mumc'', b_who = None,
          b_start = (738886, 36000000000), b_end = (738886, 39600000000),
          b_series_id = Some ''s1''\<rparr>,
         \<lparr>b_id = 2, b_room = ''Wetlab'', b_title = ''t'', b_account = ''mumc'', b_who = None,
          b_start = (738888, 36000000000), b_end = (738888, 39600000000),
          b_series_id = Some ''s1''\<rparr>,
         \<lparr>b_id = 3, b_room = ''Wetlab'', b_title = ''x'', b_account = ''mumc'', b_who = None,
          b_start = (738893, 36000000000), b_end = (738893, 39600000000),
          b_series_id = None\<rparr>],
      sequence = None\<rparr>
     1
     \<lparr>f_room = ''Wetlab'', f_title = ''t'', f_who = [], f_date = Valid 738886,
      f_start_time = Valid 36000000000, f_end_time = Valid 39600000000,
      f_repeat_days = [Some 0, Some 2], f_repeat_end = Valid 738893\<rparr>
   = Inr (SeriesUpdated 3,
       \<lparr>bookings =
          [\<lparr>b_id = 3, b_room = ''Wetlab'', b_title = ''x'', b_account = ''mumc'', b_who = None,
            b_start = (738893, 36000000000), b_end = (738893, 39600000000),
            b_series_id = None\<rparr>,
           \<lparr>b_id = 4, b_room = ''Wetlab'', b_title = ''t'', b_account = ''mumc'', b_who = None,
            b_start = (738886, 36000000000), b_end = (738886, 39600000000),
            b_series_id = Some ''s1''\<rparr>,
           \<lparr>b_id = 5, b_room = ''Wetlab'', b_title = ''t'', b_account = ''mumc'', b_who = None,
            b_start = (738888, 36000000000), b_end = (738888, 39600000000),
            b_series_id = Some ''s1''\<rparr>,
           \<lparr>b_id = 6, b_room = ''Wetlab'', b_title = ''t'', b_account = ''mumc'', b_who = None,
            b_start = (738893, 36000000000), b_end = (738893, 39600000000),
            b_series_id = Some ''s1''\<rparr>],
        sequence = None\<rparr>)"
proof -
  let ?r1 = "\<lparr>b_id = 1, b_room = ''Wetlab'', b_title = ''t'', b_account = ''mumc'', b_who = None,
          b_start = (738886, 36000000000), b_end = (738886, 39600000000),
          b_series_id = Some ''s1''\<rparr>"
  let ?r2 = "\<lparr>b_id = 2, b_room = ''Wetlab'', b_title = ''t'', b_account = ''mumc'', b_who = None,
          b_start = (738888, 36000000000), b_end = (738888, 39600000000),
          b_series_id = Some ''s1''\<rparr>"
  let ?r3 = "\<lparr>b_id = 3, b_room = ''Wetlab'', b_title = ''x'', b_account = ''mumc'', b_who = None,
          b_start = (738893, 36000000000), b_end = (738893, 39600000000),
          b_series_id = None\<rparr>"
  let ?st = "\<lparr>bookings = [?r1, ?r2, ?r3], sequence = None\<rparr>"
  let ?f = "\<lparr>f_room = ''Wetlab'', f_title = ''t'', f_who = [], f_date = Valid 738886,
      f_start_time = Valid 36000000000, f_end_time = Valid 39600000000,
      f_repeat_days = [Some 0, Some 2], f_repeat_end = Valid 738893\<rparr>"
  have occs: "get_series_occurrences ?st ''s1'' = [?r1, ?r2]"
    by (simp add: get_series_occurrences_def)
  have path: "edit_booking ?st 1 ?f
      = edit_series ?st ?r1 ''s1'' ?f (combine 738886 36000000000) (combine 738886 39600000000)"
    by (rule edit_booking_series_path) (simp_all add: ROOMS_def)
  have res: "edit_series ?st ?r1 ''s1'' ?f (combine 738886 36000000000) (combine 738886 39600000000)
      = (if series_conflicts ?st (f_room ?f) (b_series_id ?r1)
              (time_of (combine 738886 36000000000)) (time_of (combine 738886 39600000000))
              [738886, 738888, 738893] \<noteq> []
         then Inr (Conflicts (series_conflicts ?st (f_room ?f) (b_series_id ?r1)
              (time_of (combine 738886 36000000000)) (time_of (combine 738886 39600000000))
              [738886, 738888, 738893]), ?st)
         else Inr (SeriesUpdated (length [738886, 738888, 738893 :: int]),
                  replace_series ?st (get_series_occurrences ?st ''s1'') (f_room ?f) (f_title ?f)
                    (f_who ?f) (b_account ?r1) (time_of (combine 738886 36000000000))
                    (time_of (combine 738886 39600000000)) (b_series_id ?r1)
                    [738886, 738888, 738893]))"
  proof (rule edit_series_result[where anchor = 738886 and cur_days = "{0, 2}"
          and cur_end = "Some 738888" and W = "{0, 2}" and E = 738893])
    show "infer_series_pattern (get_series_occurrences ?st ''s1'')
        = (Some 738886, {0, 2}, Some 738888)"
      unfolding occs by (rule example_pattern)
    show "date_loop 738886 738893 {0, 2} [] = Inr [738886, 738888, 738893]"
      by (rule example_walk)
  qed (simp_all add: int_set_def)
  have noc: "series_conflicts ?st ''Wetlab'' (Some ''s1'') 36000000000 39600000000
      [738886, 738888, 738893] = []"
    by (simp add: series_conflicts_def series_edit_conflict_def column_ne_def first_def
          combine_def)
  have rep: "replace_series ?st [?r1, ?r2] ''Wetlab'' ''t'' [] ''mumc'' 36000000000 39600000000
      (Some ''s1'') [738886, 738888, 738893]
      = \<lparr>bookings =
          [?r3,
           \<lparr>b_id = 4, b_room = ''Wetlab'', b_title = ''t'', b_account = ''mumc'', b_who = None,
            b_start = (738886, 36000000000), b_end = (738886, 39600000000),
            b_series_id = Some ''s1''\<rparr>,
           \<lparr>b_id = 5, b_room = ''Wetlab'', b_title = ''t'', b_account = ''mumc'', b_who = None,
            b_start = (738888, 36000000000), b_end = (738888, 39600000000),
            b_series_id = Some ''s1''\<rparr>,
           \<lparr>b_id = 6, b_room = ''Wetlab'', b_title = ''t'', b_account = ''mumc'', b_who = None,
            b_start = (738893, 36000000000), b_end = (738893, 39600000000),
            b_series_id = Some ''s1''\<rparr>],
        sequence = None\<rparr>"
    by (simp add: replace_series_def session_delete_def session_add_def who_or_none_def
          combine_def next_id_def)
  show ?thesis
    unfolding path res
    by (simp add: noc occs rep time_of_def combine_def del: One_nat_def)
qed

text \<open>
  The same edit next to a booking of another series on 2024-01-08: the pre-check finds
  it, the request answers with that date and the table is left as it was.
\<close>

lemma series_edit_other_series_example:
  "edit_booking
     \<lparr>bookings =
        [\<lparr>b_id = 1, b_room = ''Wetlab'', b_title = ''t'', b_account = ''mumc'', b_who = None,
          b_start = (738886, 36000000000), b_end = (738886, 39600000000),
          b_series_id = Some ''s1''\<rparr>,
         \<lparr>b_id = 2, b_room = ''Wetlab'', b_title = ''t'', b_account = ''mumc'', b_who = None,
          b_start = (738888, 36000000000), b_end = (738888, 39600000000),
          b_series_id = Some ''s1''\<rparr>,
         \<lparr>b_id = 3, b_room = ''Wetlab'', b_title = ''x'', b_account = ''mumc'', b_who = None,
          b_start = (738893, 36000000000), b_end = (738893, 39600000000),
          b_series_id = Some ''s2''\<rparr>],
      sequence = None\<rparr>
     1
     \<lparr>f_room = ''Wetlab'', f_title = ''t'', f_who = [], f_date = Valid 738886,
      f_start_time = Valid 36000000000, f_end_time = Valid 39600000000,
      f_repeat_days = [Some 0, Some 2], f_repeat_end = Valid 738893\<rparr>
   = Inr (Conflicts [738893],
       \<lparr>bookings =
        [\<lparr>b_id = 1, b_room = ''Wetlab'', b_title = ''t'', b_account = ''mumc'', b_who = None,
          b_start = (738886, 36000000000), b_end = (738886, 39600000000),
          b_series_id = Some ''s1''\<rparr>,
         \<lparr>b_id = 2, b_room = ''Wetlab'', b_title = ''t'', b_account = ''mumc'', b_who = None,
          b_start = (738888, 36000000000), b_end = (738888, 39600000000),
          b_series_id = Some ''s1''\<rparr>,
         \<lparr>b_id = 3, b_room = ''Wetlab'', b_title = ''x'', b_account = ''mumc'', b_who = None,
          b_start = (738893, 36000000000), b_end = (738893, 39600000000),
          b_series_id = Some ''s2''\<rparr>],
      sequence = None\<rparr>)"
proof -
  let ?r1 = "\<lparr>b_id = 1, b_room = ''Wetlab'', b_title = ''t'', b_account = ''mumc'', b_who = None,
          b_start = (738886, 36000000000), b_end = (738886, 39600000000),
          b_series_id = Some ''s1''\<rparr>"
  let ?r2 = "\<lparr>b_id = 2, b_room = ''Wetlab'', b_title = ''t'', b_account = ''mumc'', b_who = None,
          b_start = (738888, 36000000000), b_end = (738888, 39600000000),
          b_series_id = Some ''s1''\<rparr>"
  let ?r3 = "\<lparr>b_id = 3, b_room = ''Wetlab'', b_title = ''x'', b_account = ''mumc'', b_who = None,
          b_start = (738893, 36000000000), b_end = (738893, 39600000000),
          b_series_id = Some ''s2''\<rparr>"
  let ?st = "\<lparr>bookings = [?r1, ?r2, ?r3], sequence = None\<rparr>"
  let ?f = "\<lparr>f_room = ''Wetlab'', f_title = ''t'', f_who = [], f_date = Valid 738886,
      f_start_time = Valid 36000000000, f_end_time = Valid 39600000000,
      f_repeat_days = [Some 0, Some 2], f_repeat_end = Valid 738893\<rparr>"
  have occs: "get_series_occurrences ?st ''s1'' = [?r1, ?r2]"
    by (simp add: get_series_occurrences_def)
  have p1: "find (\<lambda>r. b_id r = 1) (bookings ?st) = Some ?r1" by simp
  have p2: "b_series_id ?r1 = Some ''s1''" "''s1'' \<noteq> []" by simp_all
  have p3: "f_room ?f \<in> set ROOMS" "f_title ?f \<noteq> []" "f_date ?f = Valid 738886"
    "f_start_time ?f = Valid 36000000000" "f_end_time ?f = Valid 39600000000"
    "(36000000000::nat) < 39600000000"
    by (simp_all add: ROOMS_def)
  have p4: "infer_series_pattern (get_series_occurrences ?st ''s1'')
      = (Some 738886, {0, 2}, Some 738888)"
    unfolding occs by (rule example_pattern)
  have p5: "(if f_repeat_days ?f = [] then Some {0, 2} else int_set (f_repeat_days ?f))
      = Some {0, 2}" "{0, 2 :: int} \<noteq> {}"
    by (simp_all add: int_set_def)
  have p6: "(case f_repeat_end ?f of Empty \<Rightarrow> Some 738888 | Invalid \<Rightarrow> None
              | Valid d \<Rightarrow> Some d) = Some 738893" "(738886::int) \<le> 738893"
    by simp_all
  have p7: "[738893] = filter (\<lambda>d. series_edit_conflict ?st (f_room ?f) (Some ''s1'')
        (combine d 36000000000) (combine d 39600000000) \<noteq> None) [738886, 738888, 738893]"
    by (simp add: series_edit_conflict_def column_ne_def first_def combine_def)
  from series_edit_by_precheck[OF p1 p2 p3 p4 p5 p6 example_walk p7]
  show ?thesis by simp
qed

text \<open>
  Where no one-off booking of the room overlaps a new occurrence, the pre-check query
  and the specification's detector flag the same dates, and the edit is all or nothing
  in the detector's terms.
\<close>

lemma series_edit_all_or_nothing_without_one_offs:
  assumes "find (\<lambda>r. b_id r = bid) (bookings st) = Some b"
    and "b_series_id b = Some sid" and "sid \<noteq> []"
    and "f_room f \<in> set ROOMS" and "f_title f \<noteq> []"
    and "f_date f = Valid nd" and "f_start_time f = Valid s" and "f_end_time f = Valid e"
    and "s < e"
    and "infer_series_pattern (get_series_occurrences st sid) = (Some anchor, cur_days, cur_end)"
    and "(if f_repeat_days f = [] then Some cur_days else int_set (f_repeat_days f)) = Some W"
    and "W \<noteq> {}"
    and "(case f_repeat_end f of Empty \<Rightarrow> cur_end | Invalid \<Rightarrow> None | Valid d \<Rightarrow> Some d) = Some E"
    and "anchor \<le> E"
    and "date_loop anchor E W [] = Inr new_dates"
    and one_offs: "\<forall>r\<in>set (bookings st). \<forall>d\<in>set new_dates.
        b_room r = f_room f \<and> b_series_id r = None
          \<longrightarrow> \<not> spec_overlaps (b_start r, b_end r) (combine d s, combine d e)"
    and "conflicts = filter (\<lambda>d. spec_hasConflict st (f_room f) (combine d s, combine d e)
                                  (Some sid)) new_dates"
  shows "(conflicts \<noteq> [] \<longrightarrow> edit_booking st bid f = Inr (Conflicts conflicts, st))
     \<and> (conflicts = [] \<longrightarrow>
          (\<exists>st'. edit_booking st bid f = Inr (SeriesUpdated (length new_dates), st')
             \<and> bookings st' =
                 filter (\<lambda>r. b_id r \<notin> b_id ` set (get_series_occurrences st sid)) (bookings st)
                 @ map (\<lambda>(k, d). \<lparr>b_id = k, b_room = f_room f, b_title = f_title f,
                                   b_account = b_account b, b_who = who_or_none (f_who f),
                                   b_start = combine d s, b_end = combine d e,
                                   b_series_id = Some sid\<rparr>)
                       (enumerate
                          (next_id (st\<lparr>bookings := filter (\<lambda>r. b_id r
                              \<notin> b_id ` set (get_series_occurrences st sid)) (bookings st)\<rparr>))
                          new_dates)))"
proof -
  have "spec_hasConflict st (f_room f) (combine d s, combine d e) (Some sid)
      \<longleftrightarrow> series_edit_conflict st (f_room f) (Some sid) (combine d s) (combine d e) \<noteq> None"
    if "d \<in> set new_dates" for d
    unfolding series_edit_conflict_spec using one_offs that by blast
  then have "conflicts = filter (\<lambda>d. series_edit_conflict st (f_room f) (Some sid)
                                  (combine d s) (combine d e) \<noteq> None) new_dates"
    unfolding assms(17) by (intro filter_cong[OF refl])
  from series_edit_by_precheck[OF assms(1-15) this] show ?thesis .
qed

text \<open>
  The same table and the same room and range through the two other handlers: a creation
  request for the Wetlab on 2024-01-08 from 10:00 to 11:00 is skipped as conflicting with
  booking 3, and moving a one-off booking of another room onto that range is refused.
\<close>

lemma new_booking_one_off_example:
  "new_booking
     \<lparr>bookings =
        [\<lparr>b_id = 1, b_room = ''Wetlab'', b_title = ''t'', b_account = ''mumc'', b_who = None,
          b_start = (738886, 36000000000), b_end = (738886, 39600000000),
          b_series_id = Some ''s1''\<rparr>,
         \<lparr>b_id = 2, b_room = ''Wetlab'', b_title = ''t'', b_account = ''mumc'', b_who = None,
          b_start = (738888, 36000000000), b_end = (738888, 39600000000),
          b_series_id = Some ''s1''\<rparr>,
         \<lparr>b_id = 3, b_room = ''Wetlab'', b_title = ''x'', b_account = ''mumc'', b_who = None,
          b_start = (738893, 36000000000), b_end = (738893, 39600000000),
          b_series_id = None\<rparr>],
      sequence = None\<rparr>
     ''mumc'' ''u2''
     \<lparr>f_room = ''Wetlab'', f_title = ''t'', f_who = [], f_date = Valid 738893,
      f_start_time = Valid 36000000000, f_end_time = Valid 39600000000,
      f_repeat_days = [], f_repeat_end = Empty\<rparr>
   = Inr (Created 0 [738893],
       \<lparr>bookings =
        [\<lparr>b_id = 1, b_room = ''Wetlab'', b_title = ''t'', b_account = ''mumc'', b_who = None,
          b_start = (738886, 36000000000), b_end = (738886, 39600000000),
          b_series_id = Some ''s1''\<rparr>,
         \<lparr>b_id = 2, b_room = ''Wetlab'', b_title = ''t'', b_account = ''mumc'', b_who = None,
          b_start = (738888, 36000000000), b_end = (738888, 39600000000),
          b_series_id = Some ''s1''\<rparr>,
         \<lparr>b_id = 3, b_room = ''Wetlab'', b_title = ''x'', b_account = ''mumc'', b_who = None,
          b_start = (738893, 36000000000), b_end = (738893, 39600000000),
          b_series_id = None\<rparr>],
      sequence = None\<rparr>)"
proof -
  let ?f = "\<lparr>f_room = ''Wetlab'', f_title = ''t'', f_who = [], f_date = Valid 738893,
      f_start_time = Valid 36000000000, f_end_time = Valid 39600000000,
      f_repeat_days = [], f_repeat_end = Empty\<rparr>"
  have bd: "booking_dates 738893 (f_repeat_days ?f) (f_repeat_end ?f) = Inr (Some [738893])"
    by (simp add: booking_dates_def)
  have h: "f_room ?f \<in> set ROOMS" "f_title ?f \<noteq> []" "f_date ?f = Valid 738893"
    "f_start_time ?f = Valid 36000000000" "f_end_time ?f = Valid 39600000000"
    "(36000000000::nat) < 39600000000"
    by (simp_all add: ROOMS_def)
  show ?thesis
    unfolding new_booking_result[OF h bd]
    by (simp add: new_booking_overlap_def first_def combine_def)
qed

lemma edit_single_example:
  "edit_booking
     \<lparr>bookings =
        [\<lparr>b_id = 3, b_room = ''Wetlab'', b_title = ''x'', b_account = ''mumc'', b_who = None,
          b_start = (738893, 36000000000), b_end = (738893, 39600000000),
          b_series_id = None\<rparr>,
         \<lparr>b_id = 4, b_room = ''TMS ruimte'', b_title = ''y'', b_account = ''mumc'', b_who = None,
          b_start = (738893, 36000000000), b_end = (738893, 39600000000),
          b_series_id = None\<rparr>],
      sequence = None\<rparr>
     4
     \<lparr>f_room = ''Wetlab'', f_title = ''y'', f_who = [], f_date = Valid 738893,
      f_start_time = Valid 36000000000, f_end_time = Valid 39600000000,
      f_repeat_days = [], f_repeat_end = Empty\<rparr>
   = Inr (SingleConflict,
       \<lparr>bookings =
        [\<lparr>b_id = 3, b_room = ''Wetlab'', b_title = ''x'', b_account = ''mumc'', b_who = None,
          b_start = (738893, 36000000000), b_end = (738893, 39600000000),
          b_series_id = None\<rparr>,
         \<lparr>b_id = 4, b_room = ''TMS ruimte'', b_title = ''y'', b_account = ''mumc'', b_who = None,
          b_start = (738893, 36000000000), b_end = (738893, 39600000000),
          b_series_id = None\<rparr>],
      sequence = None\<rparr>)"
  by (simp add: edit_booking_def edit_single_def single_edit_conflict_def first_def ROOMS_def
        combine_def Let_def)

text \<open>
  The keys of a replaced series. On SQLite the keys of the deleted occurrences are
  handed out again when they were the largest of the table; on PostgreSQL the sequence
  goes on.
\<close>

lemma replace_series_keys_example:
  "map b_id (bookings (replace_series
      \<lparr>bookings =
         [\<lparr>b_id = 1, b_room = ''Wetlab'', b_title = ''x'', b_account = ''mumc'', b_who = None,
           b_start = (738893, 36000000000), b_end = (738893, 39600000000),
           b_series_id = None\<rparr>,
          \<lparr>b_id = 2, b_room = ''Wetlab'', b_title = ''t'', b_account = ''mumc'', b_who = None,
           b_start = (738886, 36000000000), b_end = (738886, 39600000000),
           b_series_id = Some ''s1''\<rparr>,
          \<lparr>b_id = 3, b_room = ''Wetlab'', b_title = ''t'', b_account = ''mumc'', b_who = None,
           b_start = (738888, 36000000000), b_end = (738888, 39600000000),
           b_series_id = Some ''s1''\<rparr>],
       sequence = sq\<rparr>
      [\<lparr>b_id = 2, b_room = ''Wetlab'', b_title = ''t'', b_account = ''mumc'', b_who = None,
        b_start = (738886, 36000000000), b_end = (738886, 39600000000),
        b_series_id = Some ''s1''\<rparr>,
       \<lparr>b_id = 3, b_room = ''Wetlab'', b_title = ''t'', b_account = ''mumc'', b_who = None,
        b_start = (738888, 36000000000), b_end = (738888, 39600000000),
        b_series_id = Some ''s1''\<rparr>]
      ''Wetlab'' ''t'' [] ''mumc'' 36000000000 39600000000 (Some ''s1'') [738886, 738888]))
   = (case sq of None \<Rightarrow> [1, 2, 3] | Some n \<Rightarrow> [1, n, Suc n])"
  by (cases sq)
     (simp_all add: replace_series_def session_delete_def session_add_def next_id_def
        who_or_none_def)

text \<open>
  Touching ranges through the single edit: moving booking 4 into the Wetlab from 11:00
  to 12:00, the instant at which booking 3 ends, is accepted and updates the row in
  place.
\<close>

lemma edit_single_touching_example:
  "edit_booking
     \<lparr>bookings =
        [\<lparr>b_id = 3, b_room = ''Wetlab'', b_title = ''x'', b_account = ''mumc'', b_who = None,
          b_start = (738893, 36000000000), b_end = (738893, 39600000000),
          b_series_id = None\<rparr>,
         \<lparr>b_id = 4, b_room = ''TMS ruimte'', b_title = ''y'', b_account = ''mumc'', b_who = None,
          b_start = (738893, 36000000000), b_end = (738893, 39600000000),
          b_series_id = None\<rparr>],
      sequence = None\<rparr>
     4
     \<lparr>f_room = ''Wetlab'', f_title = ''y'', f_who = [], f_date = Valid 738893,
      f_start_time = Valid 39600000000, f_end_time = Valid 43200000000,
      f_repeat_days = [], f_repeat_end = Empty\<rparr>
   = Inr (BookingUpdated,
       \<lparr>bookings =
        [\<lparr>b_id = 3, b_room = ''Wetlab'', b_title = ''x'', b_account = ''mumc'', b_who = None,
          b_start = (738893, 36000000000), b_end = (738893, 39600000000),
          b_series_id = None\<rparr>,
         \<lparr>b_id = 4, b_room = ''Wetlab'', b_title = ''y'', b_account = ''mumc'', b_who = None,
          b_start = (738893, 39600000000), b_end = (738893, 43200000000),
          b_series_id = None\<rparr>],
      sequence = None\<rparr>)"
  by (simp add: edit_booking_def edit_single_def single_edit_conflict_def first_def ROOMS_def
        combine_def Let_def who_or_none_def)

section \<open>The series pre-check and one-off bookings\<close>

text \<open>
  C1. A series edit next to a one-off booking: series \<open>s1\<close> holds the Wetlab on Monday
  2024-01-01 and Wednesday 2024-01-03 from 10:00 to 11:00, and a one-off booking (no series
  identifier) holds the Wetlab on Monday 2024-01-08 from 10:00 to 11:00.  Extending the
  series to end on 2024-01-08 makes 2024-01-08 a candidate date whose range is the one-off
  booking's range.  The query of the series pre-check finds nothing on that date, while the
  query of the creation path finds the one-off booking for the same room and range; the
  edit is accepted, reports three occurrences and stores occurrence 6 on top of booking 3.
\<close>

theorem series_edit_misses_one_off_overlap:
  "series_edit_conflict
     \<lparr>bookings =
        [\<lparr>b_id = 1, b_room = ''Wetlab'', b_title = ''t'', b_account = ''mumc'', b_who = None,
          b_start = (738886, 36000000000), b_end = (738886, 39600000000),
          b_series_id = Some ''s1''\<rparr>,
         \<lparr>b_id = 2, b_room = ''Wetlab'', b_title = ''t'', b_account = ''mumc'', b_who = None,
          b_start = (738888, 36000000000), b_end = (738888, 39600000000),
          b_series_id = Some ''s1''\<rparr>,
         \<lparr>b_id = 3, b_room = ''Wetlab'', b_title = ''x'', b_account = ''mumc'', b_who = None,
          b_start = (738893, 36000000000), b_end = (738893, 39600000000),
          b_series_id = None\<rparr>],
      sequence = None\<rparr>
     ''Wetlab'' (Some ''s1'') (combine 738893 36000000000) (combine 738893 39600000000)
   = None
   \<and> new_booking_overlap
     \<lparr>bookings =
        [\<lparr>b_id = 1, b_room = ''Wetlab'', b_title = ''t'', b_account = ''mumc'', b_who = None,
          b_start = (738886, 36000000000), b_end = (738886, 39600000000),
          b_series_id = Some ''s1''\<rparr>,
         \<lparr>b_id = 2, b_room = ''Wetlab'', b_title = ''t'', b_account = ''mumc'', b_who = None,
          b_start = (738888, 36000000000), b_end = (738888, 39600000000),
          b_series_id = Some ''s1''\<rparr>,
         \<lparr>b_id = 3, b_room = ''Wetlab'', b_title = ''x'', b_account = ''mumc'', b_who = None,
          b_start = (738893, 36000000000), b_end = (738893, 39600000000),
          b_series_id = None\<rparr>],
      sequence = None\<rparr>
     ''Wetlab'' (combine 738893 36000000000) (combine 738893 39600000000)
   = Some \<lparr>b_id = 3, b_room = ''Wetlab'', b_title = ''x'', b_account = ''mumc'', b_who = None,
          b_start = (738893, 36000000000), b_end = (738893, 39600000000),
          b_series_id = None\<rparr>
   \<and> spec_overlaps (combine 738893 36000000000, combine 738893 39600000000)
        ((738893, 36000000000), (738893, 39600000000))
   \<and> edit_booking
     \<lparr>bookings =
        [\<lparr>b_id = 1, b_room = ''Wetlab'', b_title = ''t'', b_account = ''mumc'', b_who = None,
          b_start = (738886, 36000000000), b_end = (738886, 39600000000),
          b_series_id = Some ''s1''\<rparr>,
         \<lparr>b_id = 2, b_room = ''Wetlab'', b_title = ''t'', b_account = ''mumc'', b_who = None,
          b_start = (738888, 36000000000), b_end = (738888, 39600000000),
          b_series_id = Some ''s1''\<rparr>,
         \<lparr>b_id = 3, b_room = ''Wetlab'', b_title = ''x'', b_account = ''mumc'', b_who = None,
          b_start = (738893, 36000000000), b_end = (738893, 39600000000),
          b_series_id = None\<rparr>],
      sequence = None\<rparr>
     1
     \<lparr>f_room = ''Wetlab'', f_title = ''t'', f_who = [], f_date = Valid 738886,
      f_start_time = Valid 36000000000, f_end_time = Valid 39600000000,
      f_repeat_days = [Some 0, Some 2], f_repeat_end = Valid 738893\<rparr>
   = Inr (SeriesUpdated 3,
       \<lparr>bookings =
          [\<lparr>b_id = 3, b_room = ''Wetlab'', b_title = ''x'', b_account = ''mumc'', b_who = None,
            b_start = (738893, 36000000000), b_end = (738893, 39600000000),
            b_series_id = None\<rparr>,
           \<lparr>b_id = 4, b_room = ''Wetlab'', b_title = ''t'', b_account = ''mumc'', b_who = None,
            b_start = (738886, 36000000000), b_end = (738886, 39600000000),
            b_series_id = Some ''s1''\<rparr>,
           \<lparr>b_id = 5, b_room = ''Wetlab'', b_title = ''t'', b_account = ''mumc'', b_who = None,
            b_start = (738888, 36000000000), b_end = (738888, 39600000000),
            b_series_id = Some ''s1''\<rparr>,
           \<lparr>b_id = 6, b_room = ''Wetlab'', b_title = ''t'', b_account = ''mumc'', b_who = None,
            b_start = (738893, 36000000000), b_end = (738893, 39600000000),
            b_series_id = Some ''s1''\<rparr>],
        sequence = None\<rparr>)"
proof (intro conjI)
  show "edit_booking
     \<lparr>bookings =
        [\<lparr>b_id = 1, b_room = ''Wetlab'', b_title = ''t'', b_account = ''mumc'', b_who = None,
          b_start = (738886, 36000000000), b_end = (738886, 39600000000),
          b_series_id = Some ''s1''\<rparr>,
         \<lparr>b_id = 2, b_room = ''Wetlab'', b_title = ''t'', b_account = ''mumc'', b_who = None,
          b_start = (738888, 36000000000), b_end = (738888, 39600000000),
          b_series_id = Some ''s1''\<rparr>,
         \<lparr>b_id = 3, b_room = ''Wetlab'', b_title = ''x'', b_account = ''mumc'', b_who = None,
          b_start = (738893, 36000000000), b_end = (738893, 39600000000),
          b_series_id = None\<rparr>],
      sequence = None\<rparr>
     1
     \<lparr>f_room = ''Wetlab'', f_title = ''t'', f_who = [], f_date = Valid 738886,
      f_start_time = Valid 36000000000, f_end_time = Valid 39600000000,
      f_repeat_days = [Some 0, Some 2], f_repeat_end = Valid 738893\<rparr>
   = Inr (SeriesUpdated 3,
       \<lparr>bookings =
          [\<lparr>b_id = 3, b_room = ''Wetlab'', b_title = ''x'', b_account = ''mumc'', b_who = None,
            b_start = (738893, 36000000000), b_end = (738893, 39600000000),
            b_series_id = None\<rparr>,
           \<lparr>b_id = 4, b_room = ''Wetlab'', b_title = ''t'', b_account = ''mumc'', b_who = None,
            b_start = (738886, 36000000000), b_end = (738886, 39600000000),
            b_series_id = Some ''s1''\<rparr>,
           \<lparr>b_id = 5, b_room = ''Wetlab'', b_title = ''t'', b_account = ''mumc'', b_who = None,
            b_start = (738888, 36000000000), b_end = (738888, 39600000000),
            b_series_id = Some ''s1''\<rparr>,
           \<lparr>b_id = 6, b_room = ''Wetlab'', b_title = ''t'', b_account = ''mumc'', b_who = None,
            b_start = (738893, 36000000000), b_end = (738893, 39600000000),
            b_series_id = Some ''s1''\<rparr>],
        sequence = None\<rparr>)"
    by (rule edit_booking_example)
qed (simp_all add: series_edit_conflict_def new_booking_overlap_def column_ne_def first_def
      combine_def spec_overlaps_def)

theorem persisted_bookings_within_one_day_witness:
  "list_all (\<lambda>r. date_of (b_start r) = date_of (b_end r) \<and> b_start r < b_end r)
     [\<lparr>b_id = 2, b_room = ''Wetlab'', b_title = ''t'', b_account = ''mumc'',
       b_who = None, b_start = (738886, 36000000000),
       b_end = (738886, 39600000000), b_series_id = Some ''u1''\<rparr>,
      \<lparr>b_id = 3, b_room = ''Wetlab'', b_title = ''t'', b_account = ''mumc'',
       b_who = None, b_start = (738893, 36000000000),
       b_end = (738893, 39600000000), b_series_id = Some ''u1''\<rparr>]
   \<and> list_all (\<lambda>r. date_of (b_start r) = date_of (b_end r) \<and> b_start r < b_end r)
     [\<lparr>b_id = 4, b_room = ''Wetlab'', b_title = ''t'', b_account = ''mumc'', b_who = None,
       b_start = (738886, 36000000000), b_end = (738886, 39600000000),
       b_series_id = Some ''s1''\<rparr>,
      \<lparr>b_id = 5, b_room = ''Wetlab'', b_title = ''t'', b_account = ''mumc'', b_who = None,
       b_start = (738888, 36000000000), b_end = (738888, 39600000000),
       b_series_id = Some ''s1''\<rparr>,
      \<lparr>b_id = 6, b_room = ''Wetlab'', b_title = ''t'', b_account = ''mumc'', b_who = None,
       b_start = (738893, 36000000000), b_end = (738893, 39600000000),
       b_series_id = Some ''s1''\<rparr>]"
proof -
  note created = persisted_bookings_within_one_day[THEN conjunct1, THEN mp,
      OF new_booking_example]
  note replaced = persisted_bookings_within_one_day[THEN conjunct2, THEN mp,
      OF edit_booking_example]
  from created replaced show ?thesis by simp
qed

text \<open>
  After the accepted edit, bookings 3 and 6 both hold the Wetlab on 2024-01-08 from 10:00
  to 11:00.
\<close>

theorem series_edit_misses_one_off_overlap_witness:
  "map_sum id
     (\<lambda>(resp, st'). (resp, map b_id (filter (\<lambda>r. b_room r = ''Wetlab''
          \<and> spec_overlaps (b_start r, b_end r) ((738893, 36000000000), (738893, 39600000000)))
        (bookings st'))))
     (edit_booking
       \<lparr>bookings =
          [\<lparr>b_id = 1, b_room = ''Wetlab'', b_title = ''t'', b_account = ''mumc'', b_who = None,
            b_start = (738886, 36000000000), b_end = (738886, 39600000000),
            b_series_id = Some ''s1''\<rparr>,
           \<lparr>b_id = 2, b_room = ''Wetlab'', b_title = ''t'', b_account = ''mumc'', b_who = None,
            b_start = (738888, 36000000000), b_end = (738888, 39600000000),
            b_series_id = Some ''s1''\<rparr>,
           \<lparr>b_id = 3, b_room = ''Wetlab'', b_title = ''x'', b_account = ''mumc'', b_who = None,
            b_start = (738893, 36000000000), b_end = (738893, 39600000000),
            b_series_id = None\<rparr>],
        sequence = None\<rparr>
       1
       \<lparr>f_room = ''Wetlab'', f_title = ''t'', f_who = [], f_date = Valid 738886,
        f_start_time = Valid 36000000000, f_end_time = Valid 39600000000,
        f_repeat_days = [Some 0, Some 2], f_repeat_end = Valid 738893\<rparr>)
   = Inr (SeriesUpdated 3, [3, 6])"
  using series_edit_misses_one_off_overlap by (simp add: spec_overlaps_def)

section \<open>All or nothing, with the specification's detector\<close>

text \<open>
  C2. The series edit next to the one-off booking, read with the conflict detector of the
  specification: the candidate date 2024-01-08 conflicts (the range 10:00 to 11:00 in the
  Wetlab overlaps one-off booking 3, whose series identifier differs from \<open>s1\<close>), so
  the new pattern has a conflicting candidate date. The request does not fail: it
  reports three occurrences, the occurrences 1 and 2 of the series are deleted, and the
  occurrences 4, 5 and 6 are created.
\<close>

theorem series_edit_replaces_despite_conflict:
  "filter (\<lambda>d. spec_hasConflict
       \<lparr>bookings =
          [\<lparr>b_id = 1, b_room = ''Wetlab'', b_title = ''t'', b_account = ''mumc'', b_who = None,
            b_start = (738886, 36000000000), b_end = (738886, 39600000000),
            b_series_id = Some ''s1''\<rparr>,
           \<lparr>b_id = 2, b_room = ''Wetlab'', b_title = ''t'', b_account = ''mumc'', b_who = None,
            b_start = (738888, 36000000000), b_end = (738888, 39600000000),
            b_series_id = Some ''s1''\<rparr>,
           \<lparr>b_id = 3, b_room = ''Wetlab'', b_title = ''x'', b_account = ''mumc'', b_who = None,
            b_start = (738893, 36000000000), b_end = (738893, 39600000000),
            b_series_id = None\<rparr>],
        sequence = None\<rparr>
       ''Wetlab'' (combine d 36000000000, combine d 39600000000) (Some ''s1''))
     [738886, 738888, 738893] = [738893]
   \<and> get_series_occurrences
       \<lparr>bookings =
          [\<lparr>b_id = 1, b_room = ''Wetlab'', b_title = ''t'', b_account = ''mumc'', b_who = None,
            b_start = (738886, 36000000000), b_end = (738886, 39600000000),
            b_series_id = Some ''s1''\<rparr>,
           \<lparr>b_id = 2, b_room = ''Wetlab'', b_title = ''t'', b_account = ''mumc'', b_who = None,
            b_start = (738888, 36000000000), b_end = (738888, 39600000000),
            b_series_id = Some ''s1''\<rparr>,
           \<lparr>b_id = 3, b_room = ''Wetlab'', b_title = ''x'', b_account = ''mumc'', b_who = None,
            b_start = (738893, 36000000000), b_end = (738893, 39600000000),
            b_series_id = None\<rparr>],
        sequence = None\<rparr>
       ''s1''
     = [\<lparr>b_id = 1, b_room = ''Wetlab'', b_title = ''t'', b_account = ''mumc'', b_who = None,
         b_start = (738886, 36000000000), b_end = (738886, 39600000000),
         b_series_id = Some ''s1''\<rparr>,
        \<lparr>b_id = 2, b_room = ''Wetlab'', b_title = ''t'', b_account = ''mumc'', b_who = None,
         b_start = (738888, 36000000000), b_end = (738888, 39600000000),
         b_series_id = Some ''s1''\<rparr>]
   \<and> map_sum id (\<lambda>(resp, st'). (resp, get_series_occurrences st' ''s1''))
       (edit_booking
          \<lparr>bookings =
             [\<lparr>b_id = 1, b_room = ''Wetlab'', b_title = ''t'', b_account = ''mumc'', b_who = None,
               b_start = (738886, 36000000000), b_end = (738886, 39600000000),
               b_series_id = Some ''s1''\<rparr>,
              \<lparr>b_id = 2, b_room = ''Wetlab'', b_title = ''t'', b_account = ''mumc'', b_who = None,
               b_start = (738888, 36000000000), b_end = (738888, 39600000000),
               b_series_id = Some ''s1''\<rparr>,
              \<lparr>b_id = 3, b_room = ''Wetlab'', b_title = ''x'', b_account = ''mumc'', b_who = None,
               b_start = (738893, 36000000000), b_end = (738893, 39600000000),
               b_series_id = None\<rparr>],
           sequence = None\<rparr>
          1
          \<lparr>f_room = ''Wetlab'', f_title = ''t'', f_who = [], f_date = Valid 738886,
           f_start_time = Valid 36000000000, f_end_time = Valid 39600000000,
           f_repeat_days = [Some 0, Some 2], f_repeat_end = Valid 738893\<rparr>)
     = Inr (SeriesUpdated 3,
         [\<lparr>b_id = 4, b_room = ''Wetlab'', b_title = ''t'', b_account = ''mumc'', b_who = None,
           b_start = (738886, 36000000000), b_end = (738886, 39600000000),
           b_series_id = Some ''s1''\<rparr>,
          \<lparr>b_id = 5, b_room = ''Wetlab'', b_title = ''t'', b_account = ''mumc'', b_who = None,
           b_start = (738888, 36000000000), b_end = (738888, 39600000000),
           b_series_id = Some ''s1''\<rparr>,
          \<lparr>b_id = 6, b_room = ''Wetlab'', b_title = ''t'', b_account = ''mumc'', b_who = None,
           b_start = (738893, 36000000000), b_end = (738893, 39600000000),
           b_series_id = Some ''s1''\<rparr>])"
proof (intro conjI)
  show "map_sum id (\<lambda>(resp, st'). (resp, get_series_occurrences st' ''s1''))
       (edit_booking
          \<lparr>bookings =
             [\<lparr>b_id = 1, b_room = ''Wetlab'', b_title = ''t'', b_account = ''mumc'', b_who = None,
               b_start = (738886, 36000000000), b_end = (738886, 39600000000),
               b_series_id = Some ''s1''\<rparr>,
              \<lparr>b_id = 2, b_room = ''Wetlab'', b_title = ''t'', b_account = ''mumc'', b_who = None,
               b_start = (738888, 36000000000), b_end = (738888, 39600000000),
               b_series_id = Some ''s1''\<rparr>,
              \<lparr>b_id = 3, b_room = ''Wetlab'', b_title = ''x'', b_account = ''mumc'', b_who = None,
               b_start = (738893, 36000000000), b_end = (738893, 39600000000),
               b_series_id = None\<rparr>],
           sequence = None\<rparr>
          1
          \<lparr>f_room = ''Wetlab'', f_title = ''t'', f_who = [], f_date = Valid 738886,
           f_start_time = Valid 36000000000, f_end_time = Valid 39600000000,
           f_repeat_days = [Some 0, Some 2], f_repeat_end = Valid 738893\<rparr>)
     = Inr (SeriesUpdated 3,
         [\<lparr>b_id = 4, b_room = ''Wetlab'', b_title = ''t'', b_account = ''mumc'', b_who = None,
           b_start = (738886, 36000000000), b_end = (738886, 39600000000),
           b_series_id = Some ''s1''\<rparr>,
          \<lparr>b_id = 5, b_room = ''Wetlab'', b_title = ''t'', b_account = ''mumc'', b_who = None,
           b_start = (738888, 36000000000), b_end = (738888, 39600000000),
           b_series_id = Some ''s1''\<rparr>,
          \<lparr>b_id = 6, b_room = ''Wetlab'', b_title = ''t'', b_account = ''mumc'', b_who = None,
           b_start = (738893, 36000000000), b_end = (738893, 39600000000),
           b_series_id = Some ''s1''\<rparr>])"
    unfolding edit_booking_example by (simp add: get_series_occurrences_def)
qed (simp_all add: spec_hasConflict_def spec_overlaps_def combine_def
       get_series_occurrences_def)

text \<open>
  The request does not answer with the conflicting date and an unchanged table.
\<close>

theorem series_edit_replaces_despite_conflict_witness:
  "edit_booking
     \<lparr>bookings =
        [\<lparr>b_id = 1, b_room = ''Wetlab'', b_title = ''t'', b_account = ''mumc'', b_who = None,
          b_start = (738886, 36000000000), b_end = (738886, 39600000000),
          b_series_id = Some ''s1''\<rparr>,
         \<lparr>b_id = 2, b_room = ''Wetlab'', b_title = ''t'', b_account = ''mumc'', b_who = None,
          b_start = (738888, 36000000000), b_end = (738888, 39600000000),
          b_series_id = Some ''s1''\<rparr>,
         \<lparr>b_id = 3, b_room = ''Wetlab'', b_title = ''x'', b_account = ''mumc'', b_who = None,
          b_start = (738893, 36000000000), b_end = (738893, 39600000000),
          b_series_id = None\<rparr>],
      sequence = None\<rparr>
     1
     \<lparr>f_room = ''Wetlab'', f_title = ''t'', f_who = [], f_date = Valid 738886,
      f_start_time = Valid 36000000000, f_end_time = Valid 39600000000,
      f_repeat_days = [Some 0, Some 2], f_repeat_end = Valid 738893\<rparr>
   \<noteq> Inr (Conflicts [738893],
       \<lparr>bookings =
          [\<lparr>b_id = 1, b_room = ''Wetlab'', b_title = ''t'', b_account = ''mumc'', b_who = None,
            b_start = (738886, 36000000000), b_end = (738886, 39600000000),
            b_series_id = Some ''s1''\<rparr>,
           \<lparr>b_id = 2, b_room = ''Wetlab'', b_title = ''t'', b_account = ''mumc'', b_who = None,
            b_start = (738888, 36000000000), b_end = (738888, 39600000000),
            b_series_id = Some ''s1''\<rparr>,
           \<lparr>b_id = 3, b_room = ''Wetlab'', b_title = ''x'', b_account = ''mumc'', b_who = None,
            b_start = (738893, 36000000000), b_end = (738893, 39600000000),
            b_series_id = None\<rparr>],
        sequence = None\<rparr>)"
proof
  assume a: "edit_booking
     \<lparr>bookings =
        [\<lparr>b_id = 1, b_room = ''Wetlab'', b_title = ''t'', b_account = ''mumc'', b_who = None,
          b_start = (738886, 36000000000), b_end = (738886, 39600000000),
          b_series_id = Some ''s1''\<rparr>,
         \<lparr>b_id = 2, b_room = ''Wetlab'', b_title = ''t'', b_account = ''mumc'', b_who = None,
          b_start = (738888, 36000000000), b_end = (738888, 39600000000),
          b_series_id = Some ''s1''\<rparr>,
         \<lparr>b_id = 3, b_room = ''Wetlab'', b_title = ''x'', b_account = ''mumc'', b_who = None,
          b_start = (738893, 36000000000), b_end = (738893, 39600000000),
          b_series_id = None\<rparr>],
      sequence = None\<rparr>
     1
     \<lparr>f_room = ''Wetlab'', f_title = ''t'', f_who = [], f_date = Valid 738886,
      f_start_time = Valid 36000000000, f_end_time = Valid 39600000000,
      f_repeat_days = [Some 0, Some 2], f_repeat_end = Valid 738893\<rparr>
   = Inr (Conflicts [738893],
       \<lparr>bookings =
          [\<lparr>b_id = 1, b_room = ''Wetlab'', b_title = ''t'', b_account = ''mumc'', b_who = None,
            b_start = (738886, 36000000000), b_end = (738886, 39600000000),
            b_series_id = Some ''s1''\<rparr>,
           \<lparr>b_id = 2, b_room = ''Wetlab'', b_title = ''t'', b_account = ''mumc'', b_who = None,
            b_start = (738888, 36000000000), b_end = (738888, 39600000000),
            b_series_id = Some ''s1''\<rparr>,
           \<lparr>b_id = 3, b_room = ''Wetlab'', b_title = ''x'', b_account = ''mumc'', b_who = None,
            b_start = (738893, 36000000000), b_end = (738893, 39600000000),
            b_series_id = None\<rparr>],
        sequence = None\<rparr>)"
  from series_edit_replaces_despite_conflict show False
    unfolding a by simp
qed

section \<open>One overlapping pair through the three conflict checks\<close>

text \<open>
  C6. The pair is one-off booking 3 (Wetlab, 2024-01-08, 10:00 to 11:00) and a booking
  of the same room and range. Each starts strictly before the other ends and ends
  strictly after the other starts. The creation request treats the pair as conflicting
  (the date is skipped, nothing is created), and so does the single edit that moves
  booking 4 onto the range (it is refused). The series edit that puts an occurrence of
  series \<open>s1\<close> on the range does not: its query finds no row and the edit is accepted.
\<close>

theorem series_check_differs_on_overlapping_pair:
  "spec_overlaps (combine 738893 36000000000, combine 738893 39600000000) ((738893, 36000000000), (738893, 39600000000))
   \<and> spec_overlaps ((738893, 36000000000), (738893, 39600000000)) (combine 738893 36000000000, combine 738893 39600000000)
   \<and> new_booking
       \<lparr>bookings =
          [\<lparr>b_id = 1, b_room = ''Wetlab'', b_title = ''t'', b_account = ''mumc'', b_who = None,
            b_start = (738886, 36000000000), b_end = (738886, 39600000000),
            b_series_id = Some ''s1''\<rparr>,
           \<lparr>b_id = 2, b_room = ''Wetlab'', b_title = ''t'', b_account = ''mumc'', b_who = None,
            b_start = (738888, 36000000000), b_end = (738888, 39600000000),
            b_series_id = Some ''s1''\<rparr>,
           \<lparr>b_id = 3, b_room = ''Wetlab'', b_title = ''x'', b_account = ''mumc'', b_who = None,
            b_start = (738893, 36000000000), b_end = (738893, 39600000000),
            b_series_id = None\<rparr>],
        sequence = None\<rparr>
       ''mumc'' ''u2''
       \<lparr>f_room = ''Wetlab'', f_title = ''t'', f_who = [], f_date = Valid 738893,
        f_start_time = Valid 36000000000, f_end_time = Valid 39600000000,
        f_repeat_days = [], f_repeat_end = Empty\<rparr>
     = Inr (Created 0 [738893],
         \<lparr>bookings =
            [\<lparr>b_id = 1, b_room = ''Wetlab'', b_title = ''t'', b_account = ''mumc'', b_who = None,
              b_start = (738886, 36000000000), b_end = (738886, 39600000000),
              b_series_id = Some ''s1''\<rparr>,
             \<lparr>b_id = 2, b_room = ''Wetlab'', b_title = ''t'', b_account = ''mumc'', b_who = None,
              b_start = (738888, 36000000000), b_end = (738888, 39600000000),
              b_series_id = Some ''s1''\<rparr>,
             \<lparr>b_id = 3, b_room = ''Wetlab'', b_title = ''x'', b_account = ''mumc'', b_who = None,
              b_start = (738893, 36000000000), b_end = (738893, 39600000000),
              b_series_id = None\<rparr>],
          sequence = None\<rparr>)
   \<and> edit_booking
       \<lparr>bookings =
          [\<lparr>b_id = 3, b_room = ''Wetlab'', b_title = ''x'', b_account = ''mumc'', b_who = None,
            b_start = (738893, 36000000000), b_end = (738893, 39600000000),
            b_series_id = None\<rparr>,
           \<lparr>b_id = 4, b_room = ''TMS ruimte'', b_title = ''y'', b_account = ''mumc'', b_who = None,
            b_start = (738893, 36000000000), b_end = (738893, 39600000000),
            b_series_id = None\<rparr>],
        sequence = None\<rparr>
       4
       \<lparr>f_room = ''Wetlab'', f_title = ''y'', f_who = [], f_date = Valid 738893,
        f_start_time = Valid 36000000000, f_end_time = Valid 39600000000,
        f_repeat_days = [], f_repeat_end = Empty\<rparr>
     = Inr (SingleConflict,
         \<lparr>bookings =
            [\<lparr>b_id = 3, b_room = ''Wetlab'', b_title = ''x'', b_account = ''mumc'', b_who = None,
              b_start = (738893, 36000000000), b_end = (738893, 39600000000),
              b_series_id = None\<rparr>,
             \<lparr>b_id = 4, b_room = ''TMS ruimte'', b_title = ''y'', b_account = ''mumc'', b_who = None,
              b_start = (738893, 36000000000), b_end = (738893, 39600000000),
              b_series_id = None\<rparr>],
          sequence = None\<rparr>)
   \<and> series_edit_conflict
       \<lparr>bookings =
          [\<lparr>b_id = 1, b_room = ''Wetlab'', b_title = ''t'', b_account = ''mumc'', b_who = None,
            b_start = (738886, 36000000000), b_end = (738886, 39600000000),
            b_series_id = Some ''s1''\<rparr>,
           \<lparr>b_id = 2, b_room = ''Wetlab'', b_title = ''t'', b_account = ''mumc'', b_who = None,
            b_start = (738888, 36000000000), b_end = (738888, 39600000000),
            b_series_id = Some ''s1''\<rparr>,
           \<lparr>b_id = 3, b_room = ''Wetlab'', b_title = ''x'', b_account = ''mumc'', b_who = None,
            b_start = (738893, 36000000000), b_end = (738893, 39600000000),
            b_series_id = None\<rparr>],
        sequence = None\<rparr>
       ''Wetlab'' (Some ''s1'') (combine 738893 36000000000) (combine 738893 39600000000)
     = None
   \<and> map_sum id fst
       (edit_booking
          \<lparr>bookings =
             [\<lparr>b_id = 1, b_room = ''Wetlab'', b_title = ''t'', b_account = ''mumc'', b_who = None,
               b_start = (738886, 36000000000), b_end = (738886, 39600000000),
               b_series_id = Some ''s1''\<rparr>,
              \<lparr>b_id = 2, b_room = ''Wetlab'', b_title = ''t'', b_account = ''mumc'', b_who = None,
               b_start = (738888, 36000000000), b_end = (738888, 39600000000),
               b_series_id = Some ''s1''\<rparr>,
              \<lparr>b_id = 3, b_room = ''Wetlab'', b_title = ''x'', b_account = ''mumc'', b_who = None,
               b_start = (738893, 36000000000), b_end = (738893, 39600000000),
               b_series_id = None\<rparr>],
           sequence = None\<rparr>
          1
          \<lparr>f_room = ''Wetlab'', f_title = ''t'', f_who = [], f_date = Valid 738886,
           f_start_time = Valid 36000000000, f_end_time = Valid 39600000000,
           f_repeat_days = [Some 0, Some 2], f_repeat_end = Valid 738893\<rparr>)
     = Inr (SeriesUpdated 3)"
proof (intro conjI)
  show "new_booking
       \<lparr>bookings =
          [\<lparr>b_id = 1, b_room = ''Wetlab'', b_title = ''t'', b_account = ''mumc'', b_who = None,
            b_start = (738886, 36000000000), b_end = (738886, 39600000000),
            b_series_id = Some ''s1''\<rparr>,
           \<lparr>b_id = 2, b_room = ''Wetlab'', b_title = ''t'', b_account = ''mumc'', b_who = None,
            b_start = (738888, 36000000000), b_end = (738888, 39600000000),
            b_series_id = Some ''s1''\<rparr>,
           \<lparr>b_id = 3, b_room = ''Wetlab'', b_title = ''x'', b_account = ''mumc'', b_who = None,
            b_start = (738893, 36000000000), b_end = (738893, 39600000000),
            b_series_id = None\<rparr>],
        sequence = None\<rparr>
       ''mumc'' ''u2''
       \<lparr>f_room = ''Wetlab'', f_title = ''t'', f_who = [], f_date = Valid 738893,
        f_start_time = Valid 36000000000, f_end_time = Valid 39600000000,
        f_repeat_days = [], f_repeat_end = Empty\<rparr>
     = Inr (Created 0 [738893],
         \<lparr>bookings =
            [\<lparr>b_id = 1, b_room = ''Wetlab'', b_title = ''t'', b_account = ''mumc'', b_who = None,
              b_start = (738886, 36000000000), b_end = (738886, 39600000000),
              b_series_id = Some ''s1''\<rparr>,
             \<lparr>b_id = 2, b_room = ''Wetlab'', b_title = ''t'', b_account = ''mumc'', b_who = None,
              b_start = (738888, 36000000000), b_end = (738888, 39600000000),
              b_series_id = Some ''s1''\<rparr>,
             \<lparr>b_id = 3, b_room = ''Wetlab'', b_title = ''x'', b_account = ''mumc'', b_who = None,
              b_start = (738893, 36000000000), b_end = (738893, 39600000000),
              b_series_id = None\<rparr>],
          sequence = None\<rparr>)"
    by (rule new_booking_one_off_example)
  show "edit_booking
       \<lparr>bookings =
          [\<lparr>b_id = 3, b_room = ''Wetlab'', b_title = ''x'', b_account = ''mumc'', b_who = None,
            b_start = (738893, 36000000000), b_end = (738893, 39600000000),
            b_series_id = None\<rparr>,
           \<lparr>b_id = 4, b_room = ''TMS ruimte'', b_title = ''y'', b_account = ''mumc'', b_who = None,
            b_start = (738893, 36000000000), b_end = (738893, 39600000000),
            b_series_id = None\<rparr>],
        sequence = None\<rparr>
       4
       \<lparr>f_room = ''Wetlab'', f_title = ''y'', f_who = [], f_date = Valid 738893,
        f_start_time = Valid 36000000000, f_end_time = Valid 39600000000,
        f_repeat_days = [], f_repeat_end = Empty\<rparr>
     = Inr (SingleConflict,
         \<lparr>bookings =
            [\<lparr>b_id = 3, b_room = ''Wetlab'', b_title = ''x'', b_account = ''mumc'', b_who = None,
              b_start = (738893, 36000000000), b_end = (738893, 39600000000),
              b_series_id = None\<rparr>,
             \<lparr>b_id = 4, b_room = ''TMS ruimte'', b_title = ''y'', b_account = ''mumc'', b_who = None,
              b_start = (738893, 36000000000), b_end = (738893, 39600000000),
              b_series_id = None\<rparr>],
          sequence = None\<rparr>)"
    by (rule edit_single_example)
  show "map_sum id fst
       (edit_booking
          \<lparr>bookings =
             [\<lparr>b_id = 1, b_room = ''Wetlab'', b_title = ''t'', b_account = ''mumc'', b_who = None,
               b_start = (738886, 36000000000), b_end = (738886, 39600000000),
               b_series_id = Some ''s1''\<rparr>,
              \<lparr>b_id = 2, b_room = ''Wetlab'', b_title = ''t'', b_account = ''mumc'', b_who = None,
               b_start = (738888, 36000000000), b_end = (738888, 39600000000),
               b_series_id = Some ''s1''\<rparr>,
              \<lparr>b_id = 3, b_room = ''Wetlab'', b_title = ''x'', b_account = ''mumc'', b_who = None,
               b_start = (738893, 36000000000), b_end = (738893, 39600000000),
               b_series_id = None\<rparr>],
           sequence = None\<rparr>
          1
          \<lparr>f_room = ''Wetlab'', f_title = ''t'', f_who = [], f_date = Valid 738886,
           f_start_time = Valid 36000000000, f_end_time = Valid 39600000000,
           f_repeat_days = [Some 0, Some 2], f_repeat_end = Valid 738893\<rparr>)
     = Inr (SeriesUpdated 3)"
    unfolding edit_booking_example by simp
qed (simp_all add: spec_overlaps_def combine_def series_edit_conflict_def column_ne_def
       first_def)

text \<open>
  On the same table, room and range the creation request and the series edit answer
  differently.
\<close>

theorem series_check_differs_on_overlapping_pair_witness:
  "map_sum id fst
     (new_booking
       \<lparr>bookings =
          [\<lparr>b_id = 1, b_room = ''Wetlab'', b_title = ''t'', b_account = ''mumc'', b_who = None,
            b_start = (738886, 36000000000), b_end = (738886, 39600000000),
            b_series_id = Some ''s1''\<rparr>,
           \<lparr>b_id = 2, b_room = ''Wetlab'', b_title = ''t'', b_account = ''mumc'', b_who = None,
            b_start = (738888, 36000000000), b_end = (738888, 39600000000),
            b_series_id = Some ''s1''\<rparr>,
           \<lparr>b_id = 3, b_room = ''Wetlab'', b_title = ''x'', b_account = ''mumc'', b_who = None,
            b_start = (738893, 36000000000), b_end = (738893, 39600000000),
            b_series_id = None\<rparr>],
        sequence = None\<rparr>
       ''mumc'' ''u2''
       \<lparr>f_room = ''Wetlab'', f_title = ''t'', f_who = [], f_date = Valid 738893,
        f_start_time = Valid 36000000000, f_end_time = Valid 39600000000,
        f_repeat_days = [], f_repeat_end = Empty\<rparr>)
     = Inr (Created 0 [738893])
   \<and> map_sum id fst
       (edit_booking
          \<lparr>bookings =
             [\<lparr>b_id = 1, b_room = ''Wetlab'', b_title = ''t'', b_account = ''mumc'', b_who = None,
               b_start = (738886, 36000000000), b_end = (738886, 39600000000),
               b_series_id = Some ''s1''\<rparr>,
              \<lparr>b_id = 2, b_room = ''Wetlab'', b_title = ''t'', b_account = ''mumc'', b_who = None,
               b_start = (738888, 36000000000), b_end = (738888, 39600000000),
               b_series_id = Some ''s1''\<rparr>,
              \<lparr>b_id = 3, b_room = ''Wetlab'', b_title = ''x'', b_account = ''mumc'', b_who = None,
               b_start = (738893, 36000000000), b_end = (738893, 39600000000),
               b_series_id = None\<rparr>],
           sequence = None\<rparr>
          1
          \<lparr>f_room = ''Wetlab'', f_title = ''t'', f_who = [], f_date = Valid 738886,
           f_start_time = Valid 36000000000, f_end_time = Valid 39600000000,
           f_repeat_days = [Some 0, Some 2], f_repeat_end = Valid 738893\<rparr>)
     = Inr (SeriesUpdated 3)"
  using series_check_differs_on_overlapping_pair by simp

section \<open>The weekly grid: what the buckets hold\<close>

lemma week_boundsD:
  assumes "week_bounds start_d = Inr (ws, we)"
  shows "date_min \<le> ws" "we = ws + 6" "we \<le> date_max" "ws = start_d - weekday start_d"
  using assms
  by (auto simp: week_bounds_def add_days_def split: if_splits sum.splits)

lemma weekday_monday: "weekday (d - weekday d) = 0"
proof -
  have "d - (d + 6) mod 7 + 6 = 7 * ((d + 6) div 7)"
    using minus_mod_eq_mult_div[of "d + 6" 7] by simp
  then show ?thesis by (simp add: weekday_def)
qed

lemma map_of_const:
  "map_of (map (\<lambda>k. (k, v)) ks) = (\<lambda>k. if k \<in> set ks then Some v else None)"
  by (induction ks) (auto simp: fun_eq_iff)

lemma empty_grid_eq:
  assumes "date_min \<le> ws" "ws + 6 \<le> date_max"
  shows "empty_grid ws
     = Inr (\<lambda>room. if room \<in> set ROOMS
                    then Some (\<lambda>d. if ws \<le> d \<and> d \<le> ws + 6 then Some [] else None)
                    else None)"
proof -
  have days: "add_days_each ws [0, 1, 2, 3, 4, 5, 6]
      = Inr [ws, ws + 1, ws + 2, ws + 3, ws + 4, ws + 5, ws + 6]"
    using assms by (simp add: add_days_def)
  have mem: "d \<in> set [ws, ws + 1, ws + 2, ws + 3, ws + 4, ws + 5, ws + 6]
      \<longleftrightarrow> ws \<le> d \<and> d \<le> ws + 6" for d
    by auto
  show ?thesis
    unfolding empty_grid_def days sum.case map_of_const mem ..
qed

lemma fill_grid_buckets:
  "fill_grid
     (\<lambda>room. if room \<in> set ROOMS
              then Some (\<lambda>d. if ws \<le> d \<and> d \<le> we then Some (F room d) else None)
              else None)
     ws we bs
   = Inr (\<lambda>room. if room \<in> set ROOMS
                  then Some (\<lambda>d. if ws \<le> d \<and> d \<le> we
                                  then Some (F room d
                                         @ filter (\<lambda>b. b_room b = room
                                                     \<and> date_of (b_start b) = d) bs)
                                  else None)
                  else None)"
proof (induction bs arbitrary: F)
  case Nil
  show ?case by (auto simp: fun_eq_iff)
next
  case (Cons b rest)
  let ?G = "\<lambda>F room. if room \<in> set ROOMS
              then Some (\<lambda>d. if ws \<le> d \<and> d \<le> we then Some (F room d :: booking list)
                             else None)
              else None"
  let ?day = "date_of (b_start b)"
  show ?case
  proof (cases "b_room b \<in> set ROOMS \<and> ws \<le> ?day \<and> ?day \<le> we")
    case True
    let ?F' = "\<lambda>room d. if room = b_room b \<and> d = ?day then F room d @ [b] else F room d"
    have app: "grid_append (?G F) (b_room b) ?day b = Inr (?G ?F')"
      using True by (auto simp: grid_append_def fun_eq_iff)
    have step: "fill_grid (?G F) ws we (b # rest) = fill_grid (?G ?F') ws we rest"
      using True by (simp add: app Let_def)
    show ?thesis
      unfolding step Cons.IH[of ?F']
      by (auto simp: fun_eq_iff)
  next
    case False
    have step: "fill_grid (?G F) ws we (b # rest) = fill_grid (?G F) ws we rest"
      using False by (auto simp: Let_def)
    show ?thesis
      unfolding step Cons.IH[of F]
      using False by (auto simp: fun_eq_iff)
  qed
qed

lemma bucket_grid:
  "bucket (\<lambda>room. if room \<in> set ROOMS
                   then Some (\<lambda>d. if ws \<le> d \<and> d \<le> we then Some (F room d) else None)
                   else None) room day
   = (if room \<in> set ROOMS \<and> ws \<le> day \<and> day \<le> we then F room day else [])"
  by (simp add: bucket_def)

lemma build_grid_buckets:
  assumes "date_min \<le> ws" "ws + 6 \<le> date_max"
  shows "\<exists>g. build_grid ws (ws + 6) bs = Inr g
     \<and> dom g = set ROOMS
     \<and> (\<forall>room days. g room = Some days \<longrightarrow> dom days = {ws..ws + 6})
     \<and> (\<forall>room day. bucket g room day
           = filter (\<lambda>b. b_room b = room \<and> date_of (b_start b) = day
                         \<and> room \<in> set ROOMS \<and> ws \<le> day \<and> day \<le> ws + 6) bs)"
proof -
  let ?g = "\<lambda>room. if room \<in> set ROOMS
              then Some (\<lambda>d. if ws \<le> d \<and> d \<le> ws + 6
                              then Some ([] @ filter (\<lambda>b. b_room b = room
                                                      \<and> date_of (b_start b) = d) bs)
                              else None)
              else None"
  have b: "build_grid ws (ws + 6) bs = Inr ?g"
    unfolding build_grid_def empty_grid_eq[OF assms] sum.case
    by (rule fill_grid_buckets)
  have rooms: "dom ?g = set ROOMS"
    by (auto simp: dom_def)
  have days: "dom days = {ws..ws + 6}" if "?g room = Some days" for room days
    using that by (auto simp: dom_def split: if_splits)
  have "bucket ?g room day
      = filter (\<lambda>b. b_room b = room \<and> date_of (b_start b) = day
                     \<and> room \<in> set ROOMS \<and> ws \<le> day \<and> day \<le> ws + 6) bs" for room day
    unfolding bucket_grid by simp
  with b rooms days show ?thesis by blast
qed

lemma index_InrD:
  assumes "index st today jump_date qs = Inr pg"
  shows "\<exists>start_d. start_day today jump_date qs = Inr start_d
      \<and> week_bounds start_d = Inr (p_week_start pg, p_week_end pg)
      \<and> build_grid (p_week_start pg) (p_week_end pg)
            (week_query st (p_week_start pg) (p_week_end pg)) = Inr (p_grid pg)
      \<and> add_days (p_week_start pg) (- 7) = Inr (p_prev_week pg)
      \<and> add_days (p_week_start pg) 7 = Inr (p_next_week pg)"
  using assms
  by (auto simp: index_def split: sum.splits prod.splits)

lemma index_returns:
  assumes "start_day today jump_date qs = Inr start_d"
    and "week_bounds start_d = Inr (ws, we)"
    and "date_min \<le> ws - 7" and "ws + 7 \<le> date_max"
  shows "\<exists>g. index st today jump_date qs
     = Inr \<lparr>p_week_start = ws, p_week_end = we, p_grid = g, p_prev_week = ws - 7,
            p_next_week = ws + 7\<rparr>"
proof -
  from week_boundsD[OF assms(2)] have w: "date_min \<le> ws" "we = ws + 6" "ws + 6 \<le> date_max"
    by simp_all
  from build_grid_buckets[OF w(1,3), of "week_query st ws we"] obtain g where
    "build_grid ws we (week_query st ws we) = Inr g"
    unfolding w(2) by blast
  then show ?thesis
    using assms by (simp add: index_def add_days_def)
qed

text \<open>
  Where no page is produced: the bounds of the last week of year 9999 (Monday
  9999-12-27) cannot be computed, and for the week of 0001-01-01 the grid is built but
  the date of the previous week cannot be computed. Both raise OverflowError.
\<close>

lemma week_bounds_last_week: "week_bounds 3652055 = Inl OverflowError"
  by (simp add: week_bounds_def add_days_def weekday_def date_min_def date_max_def)

lemma index_first_week: "index st today Empty (Valid 1) = Inl OverflowError"
proof -
  have wb: "week_bounds 1 = Inr (1, 1 + 6)"
    by (simp add: week_bounds_def add_days_def weekday_def date_min_def date_max_def)
  from build_grid_buckets[of 1 "week_query st 1 (1 + 6)"] obtain g where
    "build_grid 1 (1 + 6) (week_query st 1 (1 + 6)) = Inr g"
    by (auto simp: date_min_def date_max_def)
  then show ?thesis
    by (simp add: index_def start_day_def wb add_days_def date_min_def)
qed

text \<open>
  C7. The week the code computes runs from a Monday to the Sunday six days later. For
  every such week and every list of bookings, the grid is built. It has a row for each
  enumerated room and no other, and each row has a cell for each of the seven days and
  no other. The bucket of a room and a day holds, in the order of the list, exactly the
  bookings of that room that start on that day, provided the room is one of the
  enumerated rooms and the day is one of the seven days of the week; every other bucket
  is empty, so a booking of another room or one that starts on a day outside the week is
  in no bucket. The page of the week shows this grid for the bookings its query returns.
\<close>

theorem weekly_grid_buckets:
  "(week_bounds start_d = Inr (week_start, week_end) \<longrightarrow>
      weekday week_start = 0 \<and> week_end = week_start + 6
      \<and> (\<exists>g. build_grid week_start week_end bs = Inr g
            \<and> dom g = set ROOMS
            \<and> (\<forall>room days. g room = Some days
                  \<longrightarrow> dom days = {week_start..week_start + 6})
            \<and> (\<forall>room day. bucket g room day
                  = filter (\<lambda>b. b_room b = room \<and> date_of (b_start b) = day
                                \<and> room \<in> set ROOMS
                                \<and> week_start \<le> day \<and> day \<le> week_start + 6) bs)))
   \<and> (index st today jump_date qs = Inr pg \<longrightarrow>
      (\<exists>d. week_bounds d = Inr (p_week_start pg, p_week_end pg))
      \<and> dom (p_grid pg) = set ROOMS
      \<and> (\<forall>room days. p_grid pg room = Some days
            \<longrightarrow> dom days = {p_week_start pg..p_week_start pg + 6})
      \<and> (\<forall>room day. bucket (p_grid pg) room day
            = filter (\<lambda>b. b_room b = room \<and> date_of (b_start b) = day
                          \<and> room \<in> set ROOMS
                          \<and> p_week_start pg \<le> day \<and> day \<le> p_week_start pg + 6)
                (week_query st (p_week_start pg) (p_week_end pg))))"
proof (intro conjI impI)
  assume wb: "week_bounds start_d = Inr (week_start, week_end)"
  note w = week_boundsD[OF wb]
  from w(4) show "weekday week_start = 0" by (simp add: weekday_monday)
  from w(2) show "week_end = week_start + 6" .
  from w(2,3) have "week_start + 6 \<le> date_max" by simp
  from build_grid_buckets[OF w(1) this, of bs]
  show "\<exists>g. build_grid week_start week_end bs = Inr g
      \<and> dom g = set ROOMS
      \<and> (\<forall>room days. g room = Some days
            \<longrightarrow> dom days = {week_start..week_start + 6})
      \<and> (\<forall>room day. bucket g room day
            = filter (\<lambda>b. b_room b = room \<and> date_of (b_start b) = day
                          \<and> room \<in> set ROOMS
                          \<and> week_start \<le> day \<and> day \<le> week_start + 6) bs)"
    unfolding w(2) .
next
  assume "index st today jump_date qs = Inr pg"
  from index_InrD[OF this] obtain d where
    wb: "week_bounds d = Inr (p_week_start pg, p_week_end pg)"
    and g: "build_grid (p_week_start pg) (p_week_end pg)
              (week_query st (p_week_start pg) (p_week_end pg)) = Inr (p_grid pg)"
    by blast
  from wb show "\<exists>d. week_bounds d = Inr (p_week_start pg, p_week_end pg)" ..
  note w = week_boundsD[OF wb]
  from w(2,3) have "p_week_start pg + 6 \<le> date_max" by simp
  from build_grid_buckets[OF w(1) this, of "week_query st (p_week_start pg) (p_week_end pg)"]
    g
  have all: "dom (p_grid pg) = set ROOMS
      \<and> (\<forall>room days. p_grid pg room = Some days
            \<longrightarrow> dom days = {p_week_start pg..p_week_start pg + 6})
      \<and> (\<forall>room day. bucket (p_grid pg) room day
            = filter (\<lambda>b. b_room b = room \<and> date_of (b_start b) = day
                          \<and> room \<in> set ROOMS
                          \<and> p_week_start pg \<le> day \<and> day \<le> p_week_start pg + 6)
                (week_query st (p_week_start pg) (p_week_end pg)))"
    unfolding w(2) by auto
  from all show "dom (p_grid pg) = set ROOMS" by blast
  from all show "\<forall>room days. p_grid pg room = Some days
            \<longrightarrow> dom days = {p_week_start pg..p_week_start pg + 6}" by blast
  from all show "\<forall>room day. bucket (p_grid pg) room day
            = filter (\<lambda>b. b_room b = room \<and> date_of (b_start b) = day
                          \<and> room \<in> set ROOMS
                          \<and> p_week_start pg \<le> day \<and> day \<le> p_week_start pg + 6)
                (week_query st (p_week_start pg) (p_week_end pg))" by blast
qed

text \<open>
  The week of Wednesday 2024-01-03 is 2024-01-01 to 2024-01-07. Of three bookings, one
  in the Wetlab on 2024-01-03, one in the Wetlab on 2024-01-10 and one on 2024-01-03 in
  a room that is not enumerated, only the first is in a bucket.
\<close>

theorem weekly_grid_buckets_witness:
  "(\<exists>g. build_grid 738886 738892
       [\<lparr>b_id = 1, b_room = ''Wetlab'', b_title = ''a'', b_account = ''mumc'', b_who = None,
         b_start = (738888, 36000000000), b_end = (738888, 39600000000),
         b_series_id = None\<rparr>,
        \<lparr>b_id = 2, b_room = ''Wetlab'', b_title = ''b'', b_account = ''mumc'', b_who = None,
         b_start = (738895, 36000000000), b_end = (738895, 39600000000),
         b_series_id = None\<rparr>,
        \<lparr>b_id = 3, b_room = ''Kelder'', b_title = ''c'', b_account = ''mumc'', b_who = None,
         b_start = (738888, 36000000000), b_end = (738888, 39600000000),
         b_series_id = None\<rparr>] = Inr g
      \<and> bucket g ''Wetlab'' 738888
          = [\<lparr>b_id = 1, b_room = ''Wetlab'', b_title = ''a'', b_account = ''mumc'',
              b_who = None, b_start = (738888, 36000000000),
              b_end = (738888, 39600000000), b_series_id = None\<rparr>]
      \<and> bucket g ''Wetlab'' 738895 = []
      \<and> bucket g ''Kelder'' 738888 = []
      \<and> bucket g ''Wetlab'' 738887 = [])
   \<and> (\<exists>pg. index
       \<lparr>bookings =
          [\<lparr>b_id = 1, b_room = ''Wetlab'', b_title = ''a'', b_account = ''mumc'', b_who = None,
            b_start = (738888, 36000000000), b_end = (738888, 39600000000),
            b_series_id = None\<rparr>,
           \<lparr>b_id = 2, b_room = ''Wetlab'', b_title = ''b'', b_account = ''mumc'', b_who = None,
            b_start = (738895, 36000000000), b_end = (738895, 39600000000),
            b_series_id = None\<rparr>,
           \<lparr>b_id = 3, b_room = ''Kelder'', b_title = ''c'', b_account = ''mumc'', b_who = None,
            b_start = (738888, 36000000000), b_end = (738888, 39600000000),
            b_series_id = None\<rparr>],
        sequence = None\<rparr>
       738900 Empty (Valid 738888) = Inr pg
      \<and> p_week_start pg = 738886 \<and> p_week_end pg = 738892
      \<and> bucket (p_grid pg) ''Wetlab'' 738888
          = [\<lparr>b_id = 1, b_room = ''Wetlab'', b_title = ''a'', b_account = ''mumc'',
              b_who = None, b_start = (738888, 36000000000),
              b_end = (738888, 39600000000), b_series_id = None\<rparr>]
      \<and> bucket (p_grid pg) ''Kelder'' 738888 = [])"
proof (intro conjI)
  let ?a = "\<lparr>b_id = 1, b_room = ''Wetlab'', b_title = ''a'', b_account = ''mumc'', b_who = None,
         b_start = (738888, 36000000000), b_end = (738888, 39600000000),
         b_series_id = None\<rparr>"
  let ?b = "\<lparr>b_id = 2, b_room = ''Wetlab'', b_title = ''b'', b_account = ''mumc'', b_who = None,
         b_start = (738895, 36000000000), b_end = (738895, 39600000000),
         b_series_id = None\<rparr>"
  let ?c = "\<lparr>b_id = 3, b_room = ''Kelder'', b_title = ''c'', b_account = ''mumc'', b_who = None,
         b_start = (738888, 36000000000), b_end = (738888, 39600000000),
         b_series_id = None\<rparr>"
  let ?st = "\<lparr>bookings = [?a, ?b, ?c], sequence = None\<rparr>"
  have wb: "week_bounds 738888 = Inr (738886, 738892)"
    by (simp add: week_bounds_def add_days_def weekday_def date_min_def date_max_def)
  from weekly_grid_buckets[THEN conjunct1, rule_format, OF wb, of "[?a, ?b, ?c]"]
  obtain g where g: "build_grid 738886 738892 [?a, ?b, ?c] = Inr g"
    and b: "\<And>room day. bucket g room day
        = filter (\<lambda>b. b_room b = room \<and> date_of (b_start b) = day
                      \<and> room \<in> set ROOMS \<and> 738886 \<le> day \<and> day \<le> 738886 + 6)
            [?a, ?b, ?c]"
    by blast
  show "\<exists>g. build_grid 738886 738892 [?a, ?b, ?c] = Inr g
      \<and> bucket g ''Wetlab'' 738888 = [?a]
      \<and> bucket g ''Wetlab'' 738895 = []
      \<and> bucket g ''Kelder'' 738888 = []
      \<and> bucket g ''Wetlab'' 738887 = []"
    using g by (auto simp: b date_of_def ROOMS_def)
  have sd: "start_day 738900 Empty (Valid 738888) = Inr 738888"
    by (simp add: start_day_def)
  from index_returns[OF sd wb, of ?st] obtain g' where
    i: "index ?st 738900 Empty (Valid 738888)
        = Inr \<lparr>p_week_start = 738886, p_week_end = 738892, p_grid = g',
               p_prev_week = 738886 - 7, p_next_week = 738886 + 7\<rparr>"
    by (auto simp: date_min_def date_max_def)
  have q: "week_query ?st 738886 738892 = [?a, ?c]"
    by (simp add: week_query_def combine_def time_min_def time_max_def)
  note t = weekly_grid_buckets[THEN conjunct2, rule_format, OF i, THEN conjunct2,
      THEN conjunct2, THEN conjunct2, rule_format]
  have b': "bucket g' room day
        = filter (\<lambda>b. b_room b = room \<and> date_of (b_start b) = day
                      \<and> room \<in> set ROOMS \<and> 738886 \<le> day \<and> day \<le> 738886 + 6)
            [?a, ?c]" for room day
    using t[of room day] by (simp add: q del: One_nat_def)
  show "\<exists>pg. index ?st 738900 Empty (Valid 738888) = Inr pg
      \<and> p_week_start pg = 738886 \<and> p_week_end pg = 738892
      \<and> bucket (p_grid pg) ''Wetlab'' 738888 = [?a]
      \<and> bucket (p_grid pg) ''Kelder'' 738888 = []"
    unfolding i by (simp add: b' date_of_def ROOMS_def)
qed

section \<open>The JSON feed: order and parameters\<close>

lemma d_start_as_dict: "map d_start (map as_dict bs) = map b_start bs"
  by (simp add: as_dict_def)

text \<open>
  C10. The feed is sorted by start instant, ascending, whatever the parameters. A
  parameter that does not parse gives the same list as a missing one; with no usable
  parameter the feed holds every row of the table, and a parameter that parses filters
  the rows as the query says.
\<close>

theorem api_bookings_sorted_and_lenient:
  "sorted (map d_start (api_bookings st start_arg end_arg))
   \<and> api_bookings st Invalid end_arg = api_bookings st Empty end_arg
   \<and> api_bookings st start_arg Invalid = api_bookings st start_arg Empty
   \<and> api_bookings st Empty Empty = map as_dict (sort_key b_start (bookings st))
   \<and> api_bookings st (Valid sdt) (Valid edt)
       = map as_dict (sort_key b_start
           (filter (\<lambda>r. b_end r \<ge> sdt \<and> b_start r \<le> edt) (bookings st)))"
proof (intro conjI)
  show "sorted (map d_start (api_bookings st start_arg end_arg))"
    unfolding api_bookings_def Let_def d_start_as_dict by (rule sorted_sort_key)
  show "api_bookings st (Valid sdt) (Valid edt)
       = map as_dict (sort_key b_start
           (filter (\<lambda>r. b_end r \<ge> sdt \<and> b_start r \<le> edt) (bookings st)))"
    by (simp add: api_bookings_def conj_commute)
qed (simp_all add: api_bookings_def)

theorem api_bookings_sorted_and_lenient_witness:
  "api_bookings
     \<lparr>bookings =
        [\<lparr>b_id = 1, b_room = ''Wetlab'', b_title = ''a'', b_account = ''mumc'', b_who = None,
          b_start = (738888, 36000000000), b_end = (738888, 39600000000),
          b_series_id = None\<rparr>,
         \<lparr>b_id = 2, b_room = ''Wetlab'', b_title = ''b'', b_account = ''mumc'', b_who = None,
          b_start = (738886, 36000000000), b_end = (738886, 39600000000),
          b_series_id = None\<rparr>],
      sequence = None\<rparr>
     Invalid Invalid
   = [\<lparr>d_id = 2, d_room = ''Wetlab'', d_title = ''b'', d_account = ''mumc'', d_who = None,
       d_start = (738886, 36000000000), d_end = (738886, 39600000000),
       d_series_id = None\<rparr>,
      \<lparr>d_id = 1, d_room = ''Wetlab'', d_title = ''a'', d_account = ''mumc'', d_who = None,
       d_start = (738888, 36000000000), d_end = (738888, 39600000000),
       d_series_id = None\<rparr>]"
proof -
  let ?st = "\<lparr>bookings =
        [\<lparr>b_id = 1, b_room = ''Wetlab'', b_title = ''a'', b_account = ''mumc'', b_who = None,
          b_start = (738888, 36000000000), b_end = (738888, 39600000000),
          b_series_id = None\<rparr>,
         \<lparr>b_id = 2, b_room = ''Wetlab'', b_title = ''b'', b_account = ''mumc'', b_who = None,
          b_start = (738886, 36000000000), b_end = (738886, 39600000000),
          b_series_id = None\<rparr>],
      sequence = None\<rparr>"
  note t = api_bookings_sorted_and_lenient[of ?st]
  have "api_bookings ?st Invalid Invalid = api_bookings ?st Empty Invalid"
    using t[of _ Invalid] by blast
  also have "\<dots> = api_bookings ?st Empty Empty"
    using t[of Empty] by blast
  also have "\<dots> = map as_dict (sort_key b_start (bookings ?st))"
    using t by blast
  finally show ?thesis by (simp add: as_dict_def)
qed


end
